theory Spec2Isabelle
  imports Complex_Main "HOL-Library.Sublist"
begin

section \<open>Strings as the services use them\<close>

text \<open>
  The services work on Python \<open>str\<close> values.  They are modelled as \<open>string\<close>
  (lists of 8-bit characters) and the character classes below are the ASCII ones, given
  by their members: the model is that of the code on ASCII text.  Characters from 128
  upwards are kept as they are: they have no case, are no digits, no word characters
  and no white space.
\<close>

definition uppers :: string where
  "uppers = ''ABCDEFGHIJKLMNOPQRSTUVWXYZ''"

definition lowers :: string where
  "lowers = ''abcdefghijklmnopqrstuvwxyz''"

definition is_digit :: "char \<Rightarrow> bool" where
  "is_digit c = (c \<in> set ''0123456789'')"

definition is_upper :: "char \<Rightarrow> bool" where
  "is_upper c = (c \<in> set uppers)"

definition is_lower :: "char \<Rightarrow> bool" where
  "is_lower c = (c \<in> set lowers)"

definition is_hex :: "char \<Rightarrow> bool" where
  "is_hex c = (c \<in> set ''0123456789abcdefABCDEF'')"

text \<open>\<open>\s\<close> and \<open>str.strip\<close>: tab, newline, vertical tab, form feed, carriage return,
  the four separators 28..31 and the space.\<close>

definition is_space :: "char \<Rightarrow> bool" where
  "is_space c = (c \<in> set [CHR 0x09, CHR 0x0A, CHR 0x0B, CHR 0x0C, CHR 0x0D,
                            CHR 0x1C, CHR 0x1D, CHR 0x1E, CHR 0x1F, CHR 0x20])"

text \<open>\<open>\w\<close>, which also decides \<open>\b\<close>.\<close>

definition is_word :: "char \<Rightarrow> bool" where
  "is_word c = (is_digit c \<or> is_upper c \<or> is_lower c \<or> c = CHR ''_'')"

definition lower_chr :: "char \<Rightarrow> char" where
  "lower_chr c = (case map_of (zip uppers lowers) c of None \<Rightarrow> c | Some d \<Rightarrow> d)"

definition upper_chr :: "char \<Rightarrow> char" where
  "upper_chr c = (case map_of (zip lowers uppers) c of None \<Rightarrow> c | Some d \<Rightarrow> d)"

definition lower :: "string \<Rightarrow> string" where
  "lower s = map lower_chr s"

definition upper :: "string \<Rightarrow> string" where
  "upper s = map upper_chr s"

definition strip :: "string \<Rightarrow> string" where
  "strip s = rev (dropWhile is_space (rev (dropWhile is_space s)))"

text \<open>\<open>sub in s\<close> on strings: \<open>sub\<close> occurs in \<open>s\<close> as a contiguous block.\<close>

fun py_in :: "string \<Rightarrow> string \<Rightarrow> bool" where
  "py_in sub [] = (sub = [])"
| "py_in sub (c # t) = (prefix sub (c # t) \<or> py_in sub t)"

text \<open>\<open>any(w in s for w in ws)\<close>.\<close>

definition any_in :: "string list \<Rightarrow> string \<Rightarrow> bool" where
  "any_in ws s = list_ex (\<lambda>w. py_in w s) ws"

text \<open>\<open>s.replace('_', ' ')\<close>.\<close>

definition replace_underscore :: "string \<Rightarrow> string" where
  "replace_underscore s = map (\<lambda>c. if c = CHR ''_'' then CHR '' '' else c) s"

text \<open>Decimal and upper-case hexadecimal numerals of a natural number, as \<open>str(n)\<close>
  and \<open>format(n, 'X')\<close> print them.\<close>

definition digit_chr :: "nat \<Rightarrow> char" where
  "digit_chr d = ''0123456789ABCDEF'' ! d"

fun digits_of :: "nat \<Rightarrow> nat \<Rightarrow> string" where
  "digits_of b n = (if b < 2 \<or> n < b then [digit_chr n] else digits_of b (n div b) @ [digit_chr (n mod b)])"

declare digits_of.simps [simp del]

definition str_of_nat :: "nat \<Rightarrow> string" where
  "str_of_nat n = digits_of 10 n"

text \<open>\<open>f"{n:02X}"\<close>: at least two hexadecimal digits, padded with zeros on the left.\<close>

definition fmt_02X :: "nat \<Rightarrow> string" where
  "fmt_02X n = (let h = digits_of 16 n in replicate (2 - length h) CHR ''0'' @ h)"

text \<open>The exception the three services can raise: \<open>ValueError\<close>, from \<open>int\<close> and from
  \<open>urljoin\<close>.  A function that can raise returns the error (\<open>Inl\<close>) or its value
  (\<open>Inr\<close>).\<close>

datatype py_error = ValueError

type_synonym 'a result = "py_error + 'a"

definition and_then :: "'a result \<Rightarrow> ('a \<Rightarrow> 'b result) \<Rightarrow> 'b result" where
  "and_then r f = (case r of Inl e \<Rightarrow> Inl e | Inr x \<Rightarrow> f x)"

text \<open>A loop that collects one value for each element and stops at the first element
  that raises.\<close>

fun for_each :: "('a \<Rightarrow> 'b result) \<Rightarrow> 'a list \<Rightarrow> 'b list result" where
  "for_each f [] = Inr []"
| "for_each f (x # xs) =
     (case f x of
        Inl e \<Rightarrow> Inl e
      | Inr y \<Rightarrow> (case for_each f xs of Inl e \<Rightarrow> Inl e | Inr ys \<Rightarrow> Inr (y # ys)))"

text \<open>The value of a string of digits in a base.\<close>

definition digit_val :: "char \<Rightarrow> nat" where
  "digit_val c = (case map_of (zip ''0123456789abcdef'' [0 ..< 16]) (lower_chr c) of
                    None \<Rightarrow> 0 | Some d \<Rightarrow> d)"

definition nat_of_digits :: "nat \<Rightarrow> string \<Rightarrow> nat" where
  "nat_of_digits b s = foldl (\<lambda>a c. a * b + digit_val c) 0 s"

text \<open>\<open>int(s)\<close> on a string of decimal digits (the only strings the code passes are
  matches of \<open>\d+\<close>).  Python (from version 3.11 on, and the security releases of the
  versions before) raises \<open>ValueError\<close> on a text of more than 4300 digits, leading
  zeros counted.\<close>

definition py_int10 :: "string \<Rightarrow> nat result" where
  "py_int10 s = (if 4300 < length s then Inl ValueError else Inr (nat_of_digits 10 s))"

text \<open>\<open>int(s, 16)\<close>, which raises \<open>ValueError\<close> (here \<open>None\<close>, as the code catches it
  at once) on a malformed literal.  Python accepts surrounding white space, a sign, the
  prefix \<open>0x\<close> and single underscores between digits (and after the prefix).  The
  white space \<open>int\<close> strips from an ASCII text is tab, newline, vertical tab, form feed,
  carriage return and space only: the separators 28..31 make the literal malformed.\<close>

definition is_int_space :: "char \<Rightarrow> bool" where
  "is_int_space c = (c \<in> set [CHR 0x09, CHR 0x0A, CHR 0x0B, CHR 0x0C, CHR 0x0D, CHR 0x20])"

fun hex_body_ok :: "string \<Rightarrow> bool" where
  "hex_body_ok [] = False"
| "hex_body_ok [c] = is_hex c"
| "hex_body_ok (c # d # t) =
     (if is_hex c then (if d = CHR ''_'' then hex_body_ok t else hex_body_ok (d # t)) else False)"

definition py_int16 :: "string \<Rightarrow> int option" where
  "py_int16 s =
     (let t = rev (dropWhile is_int_space (rev (dropWhile is_int_space s)));
          neg = (t \<noteq> [] \<and> hd t = CHR ''-'');
          u = (if t \<noteq> [] \<and> (hd t = CHR ''-'' \<or> hd t = CHR ''+'') then tl t else t);
          v = (if length u \<ge> 2 \<and> hd u = CHR ''0'' \<and> lower_chr (hd (tl u)) = CHR ''x''
               then (let w = drop 2 u in if w \<noteq> [] \<and> hd w = CHR ''_'' then tl w else w)
               else u)
      in if hex_body_ok v
         then (let n = int (nat_of_digits 16 (filter (\<lambda>c. c \<noteq> CHR ''_'') v))
               in Some (if neg then - n else n))
         else None)"

section \<open>The regular expressions of the services\<close>

text \<open>
  The patterns of the three services use character classes, bounded and unbounded
  repetition of a character class (greedy and lazy), sequence, alternation, optional
  groups, capturing groups, one negative look-ahead and \<open>\b\<close>.  No group is repeated
  more than once, so repetition is a constructor over character classes only.
\<close>

datatype regex =
    Eps
  | Chr "char \<Rightarrow> bool"
  | Rep "char \<Rightarrow> bool" nat "nat option" bool
  | Seq regex regex
  | Alt regex regex
  | Opt regex
  | Grp nat regex
  | NegAhead regex
  | WordB

text \<open>A matcher state: the character before the position (for \<open>\b\<close>), the rest of the
  subject and the groups captured so far (the latest first).\<close>

type_synonym mstate = "char option \<times> string \<times> (nat \<times> string) list"

definition advance :: "mstate \<Rightarrow> nat \<Rightarrow> mstate" where
  "advance st k = (case st of (pv, s, cs) \<Rightarrow>
     (if k = 0 then pv else Some (s ! (k - 1)), drop k s, cs))"

definition word_opt :: "char option \<Rightarrow> bool" where
  "word_opt pv = (case pv of None \<Rightarrow> False | Some c \<Rightarrow> is_word c)"

text \<open>All the ways a pattern matches at a position, in the order in which a backtracking
  matcher tries them: the first one is the match Python reports.\<close>

fun rmatch :: "regex \<Rightarrow> mstate \<Rightarrow> mstate list" where
  "rmatch Eps st = [st]"
| "rmatch (Chr p) st = (case st of (pv, s, cs) \<Rightarrow>
     (case s of [] \<Rightarrow> [] | c # t \<Rightarrow> if p c then [(Some c, t, cs)] else []))"
| "rmatch (Rep p lo hi greedy) st = (case st of (pv, s, cs) \<Rightarrow>
     (let run = length (takeWhile p s);
          n = (case hi of None \<Rightarrow> run | Some h \<Rightarrow> min h run);
          ks = (if n < lo then [] else if greedy then rev [lo ..< Suc n] else [lo ..< Suc n])
      in map (advance st) ks))"
| "rmatch (Seq a b) st = concat (map (rmatch b) (rmatch a st))"
| "rmatch (Alt a b) st = rmatch a st @ rmatch b st"
| "rmatch (Opt a) st = rmatch a st @ [st]"
| "rmatch (Grp i a) st = (case st of (pv, s, cs) \<Rightarrow>
     map (\<lambda>(pv', s', cs'). (pv', s', (i, take (length s - length s') s) # cs')) (rmatch a st))"
| "rmatch (NegAhead a) st = (if rmatch a st = [] then [st] else [])"
| "rmatch WordB st = (case st of (pv, s, cs) \<Rightarrow>
     (if word_opt pv \<noteq> word_opt (case s of [] \<Rightarrow> None | c # t \<Rightarrow> Some c) then [st] else []))"

text \<open>A match: the matched text and the captured groups.\<close>

type_synonym rmatch_result = "string \<times> (nat \<times> string) list"

text \<open>\<open>m.group(i)\<close>; a group that took no part in the match is \<open>None\<close>.\<close>

definition group :: "rmatch_result \<Rightarrow> nat \<Rightarrow> string option" where
  "group m i = map_of (snd m) i"

text \<open>What \<open>findall\<close> puts in its list for a pattern with groups: the empty string for a
  group that took no part.\<close>

definition group_str :: "rmatch_result \<Rightarrow> nat \<Rightarrow> string" where
  "group_str m i = (case group m i of None \<Rightarrow> [] | Some g \<Rightarrow> g)"

text \<open>\<open>re.search\<close>: the first position, from the left, at which the pattern matches.\<close>

fun search_from :: "regex \<Rightarrow> char option \<Rightarrow> string \<Rightarrow> rmatch_result option" where
  "search_from r pv [] =
     (case rmatch r (pv, [], []) of [] \<Rightarrow> None | (pv', s', cs) # _ \<Rightarrow> Some ([], cs))"
| "search_from r pv (c # t) =
     (case rmatch r (pv, c # t, []) of
        [] \<Rightarrow> search_from r (Some c) t
      | (pv', s', cs) # _ \<Rightarrow> Some (take (length (c # t) - length s') (c # t), cs))"

definition re_search :: "regex \<Rightarrow> string \<Rightarrow> rmatch_result option" where
  "re_search r s = search_from r None s"

definition re_found :: "regex \<Rightarrow> string \<Rightarrow> bool" where
  "re_found r s = (re_search r s \<noteq> None)"

text \<open>\<open>re.findall\<close> and \<open>re.sub\<close> scan for non-overlapping matches from the left.  After
  an empty match the scan goes on at the same position, where the next match must not be
  empty (\<open>adv\<close>).  \<open>scan\<close> returns the pieces of the subject in order: unmatched characters
  (\<open>Inl\<close>) and matches (\<open>Inr\<close>).\<close>

function scan :: "regex \<Rightarrow> bool \<Rightarrow> char option \<Rightarrow> string \<Rightarrow> (char + rmatch_result) list" where
  "scan r adv pv s =
     (case find (\<lambda>(pv', s', cs). length s' < length s \<or> \<not> adv) (rmatch r (pv, s, [])) of
        Some (pv', s', cs) \<Rightarrow>
          (if length s' < length s
           then Inr (take (length s - length s') s, cs) # scan r False pv' s'
           else if adv then []
           else Inr ([], cs) # scan r True pv s)
      | None \<Rightarrow> (case s of [] \<Rightarrow> [] | c # t \<Rightarrow> Inl c # scan r False (Some c) t))"
  by pat_completeness auto
termination
  by (relation "measure (\<lambda>(r, adv, pv, s). 2 * length s + (if adv then 0 else 1))") auto

declare scan.simps [simp del]

definition matches_of :: "(char + rmatch_result) list \<Rightarrow> rmatch_result list" where
  "matches_of ps = concat (map (\<lambda>p. case p of Inl c \<Rightarrow> [] | Inr m \<Rightarrow> [m]) ps)"

definition re_finditer :: "regex \<Rightarrow> string \<Rightarrow> rmatch_result list" where
  "re_finditer r s = matches_of (scan r False None s)"

text \<open>\<open>re.findall\<close> for a pattern without groups, and for a pattern with one group.\<close>

definition findall0 :: "regex \<Rightarrow> string \<Rightarrow> string list" where
  "findall0 r s = map fst (re_finditer r s)"

definition findall1 :: "regex \<Rightarrow> string \<Rightarrow> string list" where
  "findall1 r s = map (\<lambda>m. group_str m 1) (re_finditer r s)"

text \<open>\<open>re.sub(r, repl, s)\<close> with a replacement text without group references.\<close>

definition re_sub :: "regex \<Rightarrow> string \<Rightarrow> string \<Rightarrow> string" where
  "re_sub r repl s = concat (map (\<lambda>p. case p of Inl c \<Rightarrow> [c] | Inr m \<Rightarrow> repl) (scan r False None s))"

subsection \<open>Writing patterns\<close>

definition seqs :: "regex list \<Rightarrow> regex" where
  "seqs rs = foldr Seq rs Eps"

definition alts :: "regex \<Rightarrow> regex list \<Rightarrow> regex" where
  "alts r rs = foldl Alt r rs"

text \<open>A literal text, matched exactly (\<open>cs\<close>) or under \<open>re.IGNORECASE\<close> (\<open>ci\<close>).\<close>

definition cs :: "string \<Rightarrow> regex" where
  "cs s = seqs (map (\<lambda>c. Chr ((=) c)) s)"

definition one_of :: "string \<Rightarrow> char \<Rightarrow> bool" where
  "one_of s c = (c \<in> set s)"

definition ci :: "string \<Rightarrow> regex" where
  "ci s = seqs (map (\<lambda>c. Chr (one_of [lower_chr c, upper_chr c])) s)"

definition none_of :: "string \<Rightarrow> char \<Rightarrow> bool" where
  "none_of s c = (c \<notin> set s)"

text \<open>\<open>.\<close> without \<open>re.DOTALL\<close>, and with it.\<close>

definition dot :: "char \<Rightarrow> bool" where
  "dot c = (c \<noteq> CHR ''\<newline>'')"

definition dot_all :: "char \<Rightarrow> bool" where
  "dot_all c = True"

text \<open>The usual quantifiers over a character class.\<close>

definition rep_star :: "(char \<Rightarrow> bool) \<Rightarrow> regex" where
  "rep_star p = Rep p 0 None True"

definition rep_plus :: "(char \<Rightarrow> bool) \<Rightarrow> regex" where
  "rep_plus p = Rep p 1 None True"

definition rep_lazy :: "(char \<Rightarrow> bool) \<Rightarrow> regex" where
  "rep_lazy p = Rep p 0 None False"

definition opt_chr :: "(char \<Rightarrow> bool) \<Rightarrow> regex" where
  "opt_chr p = Rep p 0 (Some 1) True"

definition between :: "(char \<Rightarrow> bool) \<Rightarrow> nat \<Rightarrow> nat \<Rightarrow> regex" where
  "between p lo hi = Rep p lo (Some hi) True"

text \<open>\<open>["\']\<close>.\<close>

definition quote :: "char \<Rightarrow> bool" where
  "quote c = (c = CHR 0x22 \<or> c = CHR 0x27)"

definition not_quote :: "char \<Rightarrow> bool" where
  "not_quote c = (\<not> quote c)"

definition not_gt :: "char \<Rightarrow> bool" where
  "not_gt c = (c \<noteq> CHR ''>'')"


definition ci_chr :: "char \<Rightarrow> char \<Rightarrow> bool" where
  "ci_chr c = one_of [lower_chr c, upper_chr c]"

text \<open>Words separated by \<open>\s+\<close>, under \<open>re.IGNORECASE\<close>: \<open>about\s+us\<close> is
  \<open>ci_words [''about'', ''us'']\<close>.\<close>

fun ci_words :: "string list \<Rightarrow> regex" where
  "ci_words [] = Eps"
| "ci_words [w] = ci w"
| "ci_words (w # ws) = Seq (ci w) (Seq (rep_plus is_space) (ci_words ws))"

section \<open>Numbers\<close>

text \<open>
  Python's floats are modelled by exact real numbers.  The scores are multiples of five
  between 0 and 100 and the classifier's scores are integers, and on those the
  double-precision results of the two formulas below truncate and round to the same
  values as the exact ones.
\<close>

text \<open>\<open>int(x)\<close> on a float: truncation towards zero.\<close>

definition py_int :: "real \<Rightarrow> int" where
  "py_int x = (if 0 \<le> x then \<lfloor>x\<rfloor> else \<lceil>x\<rceil>)"

text \<open>Rounding to the nearest integer, a tie to the even one, as \<open>round\<close> and the
  format \<open>.0f\<close> do.\<close>

definition round_half_even :: "real \<Rightarrow> int" where
  "round_half_even x =
     (let f = \<lfloor>x\<rfloor>; d = x - of_int f
      in if d < 1 / 2 then f else if 1 / 2 < d then f + 1 else if even f then f else f + 1)"

text \<open>\<open>round(x, n)\<close>.\<close>

definition py_round :: "real \<Rightarrow> nat \<Rightarrow> real" where
  "py_round x n = of_int (round_half_even (x * 10 ^ n)) / 10 ^ n"

text \<open>\<open>f"{x:.0f}"\<close> for a float that is not negative.\<close>

definition fmt_0f :: "real \<Rightarrow> string" where
  "fmt_0f x = str_of_nat (nat (round_half_even x))"

section \<open>Gap analysis (gap\_analyzer.py)\<close>

text \<open>Each check keeps a list of issues and a score; an issue found appends its text and
  takes its penalty off the score.\<close>

record check_state =
  cs_issues :: "string list"
  cs_score :: int

definition start :: check_state where
  "start = \<lparr>cs_issues = [], cs_score = 100\<rparr>"

definition penalize :: "string \<Rightarrow> int \<Rightarrow> check_state \<Rightarrow> check_state" where
  "penalize msg n st = \<lparr>cs_issues = cs_issues st @ [msg], cs_score = cs_score st - n\<rparr>"

definition penalize_if :: "bool \<Rightarrow> string \<Rightarrow> int \<Rightarrow> check_state \<Rightarrow> check_state" where
  "penalize_if b msg n st = (if b then penalize msg n st else st)"

text \<open>The part every sub-report has; each check adds its own fields.\<close>

record report =
  score :: int
  issues :: "string list"
  severity :: string

subsection \<open>check\_mobile\_responsiveness\<close>

record mobile_report = report +
  has_viewport :: bool
  has_media_queries :: bool
  has_mobile_framework :: bool

definition viewport_pattern :: regex where
  "viewport_pattern = seqs [ci ''<meta'', rep_plus not_gt, ci ''name='', Chr quote,
     ci ''viewport'', Chr quote, rep_star not_gt, cs ''>'']"

definition media_query_pattern :: regex where
  "media_query_pattern = seqs [ci ''@media'', rep_plus (none_of ''{''), cs ''('',
     rep_star (none_of '')''), cs '')'']"

definition check_mobile_responsiveness :: "string \<Rightarrow> mobile_report" where
  "check_mobile_responsiveness html_content =
     (let viewport = re_found viewport_pattern html_content;
          st1 = penalize_if (\<not> viewport) ''Missing viewport meta tag for mobile devices'' 40 start;
          media = re_found media_query_pattern html_content;
          st2 = penalize_if (\<not> media) ''No CSS media queries detected (likely not responsive)'' 30 st1;
          framework = (py_in ''bootstrap'' (lower html_content) \<or>
                       py_in ''tailwind'' (lower html_content) \<or>
                       py_in ''foundation'' (lower html_content) \<or>
                       py_in ''mobile'' (lower html_content) \<or>
                       py_in ''responsive'' (lower html_content));
          st3 = penalize_if (\<not> framework) ''No mobile-friendly CSS framework detected'' 20 st2
      in \<lparr>score = max 0 (cs_score st3),
          issues = cs_issues st3,
          severity = (if cs_score st3 < 40 then ''critical''
                      else if cs_score st3 < 70 then ''high'' else ''medium''),
          has_viewport = viewport,
          has_media_queries = media,
          has_mobile_framework = framework\<rparr>)"

subsection \<open>check\_design\_modernity\<close>

record design_report = report +
  modern_indicators :: int
  outdated_indicators :: int

definition modern_features :: "(string \<times> regex) list" where
  "modern_features =
     [(''flexbox'', seqs [ci ''display:'', rep_star is_space, ci ''flex'']),
      (''grid'', seqs [ci ''display:'', rep_star is_space, ci ''grid'']),
      (''css_variables'', seqs [ci ''var(--'', rep_plus (none_of '')''), cs '')'']),
      (''modern_fonts'', seqs [ci ''font-family:'', rep_star (none_of '';''),
          Grp 1 (alts (ci ''sans-serif'')
                   [ci ''roboto'', ci_words [''open'', ''sans''], ci ''lato'', ci ''montserrat''])]),
      (''modern_colors'', seqs [ci ''rgb'', opt_chr (ci_chr CHR ''a''), rep_star is_space, cs ''(''] ),
      (''transitions'', ci ''transition:''),
      (''animations'', Alt (ci ''@keyframes'') (ci ''animation:''))]"

text \<open>A value of the dictionary of outdated features is a pattern or a truth value
  computed beforehand.\<close>

datatype feature = Pattern regex | Flag bool

text \<open>In the first pattern the alternation is at the top: a page that contains the word
  \<open>design\<close> counts as laid out with tables.  The last entry looks for the text of a
  pattern, backslash included, in the page.\<close>

definition outdated_features :: "string \<Rightarrow> (string \<times> feature) list" where
  "outdated_features html_content =
     [(''tables_layout'', Pattern (Alt
          (seqs [ci ''<table'', rep_star not_gt, cs ''>'', rep_star is_space,
                 ci ''<tr'', rep_star not_gt, cs ''>'', rep_star is_space,
                 ci ''<td'', rep_star not_gt, cs ''>'', rep_lazy dot, ci ''layout''])
          (ci ''design''))),
      (''frames'', Pattern (Alt (ci ''<frame'') (ci ''<frameset''))),
      (''flash'', Pattern (Alt (ci ''.swf'') (ci ''flash''))),
      (''marquee'', Pattern (ci ''<marquee'')),
      (''font_tags'', Pattern (seqs [ci ''<font'', rep_star not_gt, cs ''>''])),
      (''inline_styles_heavy'',
         Flag (50 < length (findall0 (seqs [cs ''style='', Chr quote]) html_content))),
      (''comic_sans'', Flag (py_in (''comic'' @ [CHR 0x5C] @ ''s+sans'') (lower html_content)))]"

definition count_modern :: "string \<Rightarrow> int" where
  "count_modern html_content =
     int (length (filter (\<lambda>(feature, pattern). re_found pattern html_content) modern_features))"

definition feature_found :: "string \<Rightarrow> feature \<Rightarrow> bool" where
  "feature_found html_content f =
     (case f of Flag b \<Rightarrow> b | Pattern pattern \<Rightarrow> re_found pattern html_content)"

text \<open>The loop over the outdated features: the count and the issues.\<close>

fun scan_outdated :: "string \<Rightarrow> (string \<times> feature) list \<Rightarrow> int \<times> string list \<Rightarrow> int \<times> string list" where
  "scan_outdated html_content [] acc = acc"
| "scan_outdated html_content ((feature, f) # rest) (n, iss) =
     scan_outdated html_content rest
       (if feature_found html_content f
        then (n + 1, iss @ [''Outdated: '' @ replace_underscore feature])
        else (n, iss))"

text \<open>The score is assigned anew from the two counts; the 100 it was initialised with is
  not used.\<close>

definition check_design_modernity :: "string \<Rightarrow> design_report" where
  "check_design_modernity html_content =
     (let modern = count_modern html_content;
          (outdated, iss1) =
             scan_outdated html_content (outdated_features html_content) (0, cs_issues start);
          score0 = modern * 10 - outdated * 15;
          score1 = max 0 (min 100 score0);
          iss2 = (if modern < 2 then iss1 @ [''Very few modern CSS features detected''] else iss1);
          iss3 = (if outdated = 0 \<and> modern < 3
                  then iss2 @ [''Design appears basic/minimal (not necessarily bad, but could be enhanced)'']
                  else iss2)
      in \<lparr>score = score1,
          issues = iss3,
          severity = (if score1 < 30 then ''critical'' else if score1 < 60 then ''high''
                      else if score1 < 80 then ''medium'' else ''low''),
          modern_indicators = modern,
          outdated_indicators = outdated\<rparr>)"


subsection \<open>check\_seo\_basics\<close>

record seo_report = report +
  has_title :: bool
  has_meta_description :: bool
  h1_count :: nat
  has_schema :: bool
  images_without_alt :: nat

definition title_pattern :: regex where
  "title_pattern = seqs [ci ''<title'', rep_star not_gt, cs ''>'',
     Grp 1 (rep_plus (none_of ''<'')), ci ''</title>'']"

definition meta_description_pattern :: regex where
  "meta_description_pattern = seqs [ci ''<meta'', rep_plus not_gt, ci ''name='', Chr quote,
     ci ''description'', Chr quote, rep_star not_gt, ci ''content='', Chr quote,
     Grp 1 (Rep not_quote 20 None True), Chr quote]"

definition h1_pattern :: regex where
  "h1_pattern = seqs [ci ''<h1'', rep_star not_gt, cs ''>'']"

definition h2_pattern :: regex where
  "h2_pattern = seqs [ci ''<h2'', rep_star not_gt, cs ''>'']"

definition img_without_alt_pattern :: regex where
  "img_without_alt_pattern = seqs [ci ''<img'', NegAhead (seqs [rep_star not_gt, ci ''alt='']),
     rep_star not_gt, cs ''>'']"

definition schema_pattern :: regex where
  "schema_pattern = alts (ci ''schema.org'') [ci ''itemtype='', ci ''@type'']"

text \<open>The business name is a parameter of the check and is not used by it.\<close>

definition check_seo_basics :: "string \<Rightarrow> string \<Rightarrow> seo_report" where
  "check_seo_basics html_content business_name =
     (let title_match = re_search title_pattern html_content;
          title = (title_match \<noteq> None);
          title_text = (case title_match of None \<Rightarrow> [] | Some m \<Rightarrow> group_str m 1);
          st1 = (if \<not> title \<or> length (strip title_text) < 10
                 then penalize ''Missing or too-short title tag'' 20 start
                 else if 60 < length title_text
                 then penalize ''Title tag too long (>60 chars)'' 5 start
                 else start);
          meta = re_found meta_description_pattern html_content;
          st2 = penalize_if (\<not> meta) ''Missing meta description'' 20 st1;
          h1s = length (findall0 h1_pattern html_content);
          st3 = (if h1s = 0 then penalize ''No H1 heading found'' 15 st2
                 else if 1 < h1s then penalize ''Multiple H1 headings (should be only one)'' 5 st2
                 else st2);
          h2 = re_found h2_pattern html_content;
          st4 = penalize_if (\<not> h2) ''No H2 headings found (poor content structure)'' 10 st3;
          no_alt = length (findall0 img_without_alt_pattern html_content);
          st5 = penalize_if (3 < no_alt)
                  (str_of_nat no_alt @ '' images missing alt attributes'') 15 st4;
          schema = re_found schema_pattern html_content;
          st6 = penalize_if (\<not> schema) ''No schema.org structured data found'' 15 st5
      in \<lparr>score = max 0 (cs_score st6),
          issues = cs_issues st6,
          severity = (if cs_score st6 < 50 then ''high''
                      else if cs_score st6 < 75 then ''medium'' else ''low''),
          has_title = title,
          has_meta_description = meta,
          h1_count = h1s,
          has_schema = schema,
          images_without_alt = no_alt\<rparr>)"

subsection \<open>check\_performance\_indicators\<close>

record performance_report = report +
  page_size_kb :: real
  script_count :: nat
  stylesheet_count :: nat
  has_lazy_loading :: bool
  is_minified :: bool

definition script_pattern :: regex where
  "script_pattern = seqs [ci ''<script'', rep_plus not_gt, ci ''src='']"

definition stylesheet_pattern :: regex where
  "stylesheet_pattern = seqs [ci ''<link'', rep_plus not_gt, ci ''rel='', Chr quote,
     ci ''stylesheet'', Chr quote]"

definition lazy_pattern :: regex where
  "lazy_pattern = Alt (seqs [ci ''loading='', Chr quote, ci ''lazy'', Chr quote]) (ci ''lazy-load'')"

definition check_performance_indicators :: "string \<Rightarrow> performance_report" where
  "check_performance_indicators html_content =
     (let size_kb = real (length html_content) / 1024;
          st1 = (if 500 < size_kb
                 then penalize (''Large HTML size ('' @ fmt_0f size_kb @ ''KB)'') 20 start
                 else if 200 < size_kb
                 then penalize (''Moderate HTML size ('' @ fmt_0f size_kb @ ''KB)'') 10 start
                 else start);
          scripts = length (findall0 script_pattern html_content);
          stylesheets = length (findall0 stylesheet_pattern html_content);
          st2 = penalize_if (10 < scripts)
                  (''Many external scripts ('' @ str_of_nat scripts @ '')'') 15 st1;
          st3 = penalize_if (5 < stylesheets)
                  (''Many external stylesheets ('' @ str_of_nat stylesheets @ '')'') 10 st2;
          lazy = re_found lazy_pattern html_content;
          st4 = penalize_if (\<not> lazy) ''No lazy loading detected for images'' 10 st3;
          minified = (\<not> py_in ''<!--'' (take 1000 html_content) \<and>
                      \<not> py_in ''\<newline>\<newline>'' (take 1000 html_content));
          st5 = penalize_if (\<not> minified)
                  ''HTML not minified (contains comments/excess whitespace)'' 10 st4
      in \<lparr>score = max 0 (cs_score st5),
          issues = cs_issues st5,
          severity = (if cs_score st5 < 50 then ''high''
                      else if cs_score st5 < 75 then ''medium'' else ''low''),
          page_size_kb = py_round size_kb 1,
          script_count = scripts,
          stylesheet_count = stylesheets,
          has_lazy_loading = lazy,
          is_minified = minified\<rparr>)"

subsection \<open>check\_missing\_sections\<close>

record missing_report = report +
  missing_sections_count :: nat

text \<open>The universal patterns are searched with \<open>re.DOTALL\<close>, the business-specific ones
  without it.\<close>

definition universal_sections :: "(string \<times> regex) list" where
  "universal_sections =
     [(''contact_form'', seqs [ci ''<form'', rep_star not_gt, cs ''>'', rep_lazy dot_all,
          alts (ci ''email'') [ci ''phone'', ci ''name'', ci ''message'']]),
      (''testimonials'', alts (ci ''testimonial'')
          [ci ''review'', ci_words [''customer'', ''says''], ci ''feedback'']),
      (''about'', alts (ci_words [''about'', ''us''])
          [ci_words [''who'', ''we'', ''are''], ci_words [''our'', ''story''],
           ci_words [''our'', ''team'']]),
      (''call_to_action'', Alt (ci ''<button'')
          (seqs [ci ''<a'', rep_plus not_gt, ci ''class='', Chr quote, rep_star not_quote,
                 ci ''btn'', rep_star not_quote, Chr quote]))]"

definition business_specific :: "(string \<times> (string \<times> regex) list) list" where
  "business_specific =
     [(''restaurant'',
        [(''menu'', alts (ci ''menu'') [ci ''food'', ci ''dishes'', ci ''cuisine'']),
         (''reservation'', alts (ci ''reserv'')
            [ci_words [''book'', ''table''], ci_words [''book'', ''now'']]),
         (''location_map'', alts (seqs [ci ''google'', rep_star dot, ci ''map''])
            [seqs [ci ''map'', rep_star dot, ci ''embed''], ci ''location''])]),
      (''home_services'',
        [(''service_area'', alts (ci_words [''service'', ''area''])
            [ci_words [''we'', ''serve''], ci ''coverage'']),
         (''emergency_contact'', alts (ci ''emergency'')
            [seqs [cs ''24'', opt_chr (one_of ''/''), cs ''7''], ci ''urgent'']),
         (''certifications'', alts (ci ''licensed'')
            [ci ''insured'', ci ''certified'', ci ''accredited''])]),
      (''professional'',
        [(''credentials'', alts (ci ''education'')
            [ci ''degree'', ci ''certified'', ci ''licensed'', ci_words [''bar'', ''admission'']]),
         (''case_studies'', alts (ci_words [''case'', ''study''])
            [ci_words [''case'', ''studies''], ci ''portfolio'', ci ''work'', ci ''results'']),
         (''consultation'', alts (ci ''consultation'')
            [ci_words [''free'', ''consult''], ci_words [''schedule'', ''appointment'']])])]"

text \<open>One loop of the check: every section whose pattern is not found is an issue with
  the penalty of the loop.\<close>

fun scan_sections :: "string \<Rightarrow> string \<Rightarrow> int \<Rightarrow> (string \<times> regex) list \<Rightarrow> check_state \<Rightarrow> check_state" where
  "scan_sections html_content label n [] st = st"
| "scan_sections html_content label n ((section_name, pattern) # rest) st =
     scan_sections html_content label n rest
       (penalize_if (\<not> re_found pattern html_content)
          (label @ replace_underscore section_name) n st)"

definition check_missing_sections :: "string \<Rightarrow> string \<Rightarrow> missing_report" where
  "check_missing_sections html_content business_type =
     (let st1 = scan_sections html_content ''Missing '' 15 universal_sections start;
          st2 = (case map_of business_specific business_type of
                   None \<Rightarrow> st1
                 | Some sections \<Rightarrow>
                     scan_sections html_content ''Missing business-specific: '' 10 sections st1)
      in \<lparr>score = max 0 (cs_score st2),
          issues = cs_issues st2,
          severity = (if cs_score st2 < 50 then ''high''
                      else if cs_score st2 < 75 then ''medium'' else ''low''),
          missing_sections_count = length (cs_issues st2)\<rparr>)"

subsection \<open>analyze\_website\_gaps\<close>

record gap_report =
  overall_score :: int
  priority_gaps :: "string list"
  mobile :: mobile_report
  design :: design_report
  seo :: seo_report
  performance :: performance_report
  missing_sections :: missing_report
  recommendations :: "string list"
  gap_count :: nat
  total_issues :: nat

text \<open>\<open>xs.append(x)\<close> under a condition.\<close>

definition append_if :: "bool \<Rightarrow> 'a \<Rightarrow> 'a list \<Rightarrow> 'a list" where
  "append_if b x xs = (if b then xs @ [x] else xs)"

definition weighted_sum :: "int \<Rightarrow> int \<Rightarrow> int \<Rightarrow> int \<Rightarrow> int \<Rightarrow> real" where
  "weighted_sum m d s p x =
     of_int m * 0.30 + of_int d * 0.20 + of_int s * 0.25 + of_int p * 0.15 + of_int x * 0.10"

definition find_priority_gaps ::
  "mobile_report \<Rightarrow> design_report \<Rightarrow> seo_report \<Rightarrow> performance_report \<Rightarrow> missing_report \<Rightarrow> string list" where
  "find_priority_gaps m d s p x =
     (let g1 = append_if (severity m \<in> set [''critical'', ''high'']) ''mobile_responsiveness'' [];
          g2 = append_if (severity d \<in> set [''critical'', ''high'']) ''modern_design'' g1;
          g3 = append_if (severity s = ''high'') ''seo_optimization'' g2;
          g4 = append_if (severity p = ''high'') ''performance'' g3
      in append_if (severity x = ''high'') ''key_sections'' g4)"

definition recommend :: "string \<Rightarrow> string list \<Rightarrow> mobile_report \<Rightarrow> seo_report \<Rightarrow> string list" where
  "recommend business_type gaps m s =
     (let r1 = append_if (''mobile_responsiveness'' \<in> set gaps)
                 ''Implement mobile-first responsive design with proper viewport and media queries'' [];
          r2 = append_if (''modern_design'' \<in> set gaps)
                 ''Modernize design with flexbox/grid layouts, contemporary colors, and smooth animations'' r1;
          r3 = append_if (''seo_optimization'' \<in> set gaps)
                 ''Add proper meta tags, structured headings, schema.org markup, and image alt text'' r2;
          r4 = append_if (''performance'' \<in> set gaps)
                 ''Optimize loading speed with lazy loading, minification, and reduced external resources'' r3;
          r5 = append_if (''key_sections'' \<in> set gaps)
                 (''Add missing sections important for '' @ business_type @ '' businesses'') r4;
          r6 = append_if (score m < 100 \<and> ''mobile_responsiveness'' \<notin> set gaps)
                 ''Minor mobile responsiveness improvements needed'' r5
      in append_if (score s < 100 \<and> ''seo_optimization'' \<notin> set gaps)
           ''Minor SEO enhancements recommended'' r6)"

definition analyze_website_gaps :: "string \<Rightarrow> string \<Rightarrow> string \<Rightarrow> gap_report" where
  "analyze_website_gaps html_content business_name business_type =
     (let m = check_mobile_responsiveness html_content;
          d = check_design_modernity html_content;
          s = check_seo_basics html_content business_name;
          p = check_performance_indicators html_content;
          x = check_missing_sections html_content business_type;
          overall = py_int (weighted_sum (score m) (score d) (score s) (score p) (score x));
          gaps = find_priority_gaps m d s p x
      in \<lparr>overall_score = overall,
          priority_gaps = gaps,
          mobile = m,
          design = d,
          seo = s,
          performance = p,
          missing_sections = x,
          recommendations = recommend business_type gaps m s,
          gap_count = length gaps,
          total_issues = length (issues m) + length (issues d) + length (issues s)
                         + length (issues p) + length (issues x)\<rparr>)"


section \<open>Business classification (business\_classifier.py)\<close>

record keyword_sets =
  primary :: "string list"
  secondary :: "string list"

text \<open>The three tables, in the order of their declaration (a Python dictionary keeps the
  order of insertion).\<close>

definition CATEGORY_KEYWORDS :: "(string \<times> keyword_sets) list" where
  "CATEGORY_KEYWORDS =
     [(''restaurant'',
        \<lparr>primary = [''restaurant'', ''cafe'', ''dining'', ''food'', ''cuisine'', ''menu'',
                    ''chef'', ''bistro'', ''eatery''],
         secondary = [''pizza'', ''italian'', ''chinese'', ''indian'', ''thai'', ''sushi'',
                      ''japanese'', ''mexican'', ''burger'', ''barbecue'', ''bbq'',
                      ''steakhouse'', ''seafood'', ''vegan'', ''vegetarian'']\<rparr>),
      (''professional'',
        \<lparr>primary = [''lawyer'', ''attorney'', ''legal'', ''accountant'', ''accounting'',
                    ''consultant'', ''consulting'', ''financial'', ''advisor'', ''cpa'',
                    ''tax''],
         secondary = [''law firm'', ''bookkeeping'', ''audit'', ''litigation'', ''contract'',
                      ''business consulting'', ''strategy'']\<rparr>),
      (''home_services'',
        \<lparr>primary = [''plumber'', ''plumbing'', ''electrician'', ''electrical'', ''hvac'',
                    ''heating'', ''cooling'', ''carpenter'', ''carpentry'', ''locksmith'',
                    ''handyman''],
         secondary = [''repair'', ''installation'', ''maintenance'', ''emergency'', ''24/7'',
                      ''licensed'', ''insured'']\<rparr>),
      (''health_medical'',
        \<lparr>primary = [''dentist'', ''dental'', ''doctor'', ''physician'', ''clinic'',
                    ''medical'', ''therapy'', ''therapist'', ''chiropractor'',
                    ''physiotherapy''],
         secondary = [''healthcare'', ''wellness'', ''treatment'', ''patient'',
                      ''diagnosis'', ''surgery'', ''orthodontic'', ''pediatric'']\<rparr>),
      (''beauty_wellness'',
        \<lparr>primary = [''salon'', ''spa'', ''massage'', ''barber'', ''nails'', ''manicure'',
                    ''pedicure'', ''beauty'', ''hair'', ''hairstylist''],
         secondary = [''facial'', ''waxing'', ''makeup'', ''cosmetic'', ''skincare'',
                      ''relaxation'', ''aromatherapy'']\<rparr>),
      (''fitness'',
        \<lparr>primary = [''gym'', ''fitness'', ''yoga'', ''pilates'', ''personal training'',
                    ''crossfit'', ''workout'', ''exercise''],
         secondary = [''weight loss'', ''muscle'', ''cardio'', ''strength'', ''wellness'',
                      ''health club'', ''boxing'', ''martial arts'']\<rparr>),
      (''retail'',
        \<lparr>primary = [''shop'', ''store'', ''boutique'', ''retail'', ''products'',
                    ''merchandise'', ''clothing'', ''apparel'', ''fashion''],
         secondary = [''ecommerce'', ''shopping'', ''buy'', ''sale'', ''discount'',
                      ''online store'', ''marketplace'']\<rparr>),
      (''real_estate'',
        \<lparr>primary = [''realtor'', ''real estate'', ''property'', ''homes'', ''houses'',
                    ''apartments'', ''estate agent'', ''realty''],
         secondary = [''buying'', ''selling'', ''rental'', ''lease'', ''commercial'',
                      ''residential'', ''investment'', ''listing'']\<rparr>),
      (''automotive'',
        \<lparr>primary = [''mechanic'', ''auto repair'', ''car service'', ''automotive'',
                    ''garage'', ''vehicle'', ''auto shop''],
         secondary = [''oil change'', ''brake'', ''transmission'', ''engine'', ''tire'',
                      ''inspection'', ''diagnostic'', ''body shop'']\<rparr>),
      (''education'',
        \<lparr>primary = [''school'', ''training'', ''courses'', ''tutoring'', ''education'',
                    ''learning'', ''academy'', ''institute''],
         secondary = [''teaching'', ''lessons'', ''class'', ''workshop'', ''certification'',
                      ''online learning'', ''coaching'']\<rparr>),
      (''creative'',
        \<lparr>primary = [''photographer'', ''photography'', ''designer'', ''design'', ''agency'',
                    ''studio'', ''creative'', ''artist''],
         secondary = [''graphic design'', ''web design'', ''branding'', ''marketing'',
                      ''advertising'', ''video'', ''production'']\<rparr>),
      (''hospitality'',
        \<lparr>primary = [''hotel'', ''motel'', ''accommodation'', ''bnb'', ''bed and breakfast'',
                    ''resort'', ''inn'', ''lodging''],
         secondary = [''rooms'', ''booking'', ''stay'', ''guest'', ''vacation'', ''travel'',
                      ''amenities'', ''hospitality'']\<rparr>)]"

definition CONFIDENCE_INDICATORS :: "(string \<times> string list) list" where
  "CONFIDENCE_INDICATORS =
     [(''restaurant'', [''menu page'', ''reservation'', ''delivery'', ''takeout'', ''hours'',
          ''food photos'']),
      (''professional'', [''credentials'', ''case studies'', ''consultation'', ''practice areas'',
          ''attorney'', ''certified'']),
      (''home_services'', [''service area'', ''emergency'', ''licensed'', ''insured'', ''free quote'', ''24/7'']),
      (''health_medical'', [''appointment'', ''insurance'', ''patients'', ''services'', ''doctors'',
          ''treatments'']),
      (''beauty_wellness'', [''services'', ''pricing'', ''booking'', ''before/after'', ''gallery'',
          ''testimonials'']),
      (''fitness'', [''classes'', ''schedule'', ''membership'', ''trainers'', ''facilities'',
          ''programs'']),
      (''retail'', [''products'', ''cart'', ''checkout'', ''shipping'', ''returns'', ''catalog'']),
      (''real_estate'', [''listings'', ''properties'', ''search'', ''agents'', ''mls'', ''sold'']),
      (''automotive'', [''services'', ''appointment'', ''diagnostics'', ''warranty'', ''certified'',
          ''repairs'']),
      (''education'', [''courses'', ''enrollment'', ''tuition'', ''curriculum'', ''instructors'',
          ''certification'']),
      (''creative'', [''portfolio'', ''work'', ''clients'', ''packages'', ''projects'', ''gallery'']),
      (''hospitality'', [''rooms'', ''availability'', ''check-in'', ''amenities'', ''location'', ''rates''])]"

definition SECONDARY_TAGS :: "(string \<times> (string \<times> string list) list) list" where
  "SECONDARY_TAGS =
     [(''restaurant'',
        [(''italian'', [''italian'', ''pasta'', ''pizza'', ''romano'']),
         (''chinese'', [''chinese'', ''dim sum'', ''wok'', ''asian'']),
         (''mexican'', [''mexican'', ''taco'', ''burrito'', ''salsa'']),
         (''fast_food'', [''fast food'', ''quick service'', ''drive-thru'']),
         (''fine_dining'', [''fine dining'', ''upscale'', ''gourmet'', ''michelin'']),
         (''casual'', [''casual'', ''family'', ''friendly'', ''neighborhood'']),
         (''cafe'', [''cafe'', ''coffee'', ''bakery'', ''breakfast''])]),
      (''home_services'',
        [(''emergency'', [''emergency'', ''24/7'', ''24 hour'', ''urgent'']),
         (''residential'', [''residential'', ''home'', ''house'']),
         (''commercial'', [''commercial'', ''business'', ''industrial''])]),
      (''beauty_wellness'',
        [(''hair'', [''hair'', ''salon'', ''barber'', ''hairstylist'']),
         (''nails'', [''nails'', ''manicure'', ''pedicure'']),
         (''spa'', [''spa'', ''massage'', ''facial'', ''relaxation''])])]"

text \<open>The two loops over the keywords of a category: a keyword that occurs in the search
  text adds its weight to the score and is recorded as matched.\<close>

fun match_keywords :: "string \<Rightarrow> int \<Rightarrow> string list \<Rightarrow> int \<times> string list \<Rightarrow> int \<times> string list" where
  "match_keywords search_text w [] acc = acc"
| "match_keywords search_text w (keyword # rest) (sc, matched) =
     match_keywords search_text w rest
       (if py_in keyword search_text then (sc + w, matched @ [keyword]) else (sc, matched))"

text \<open>The loop over the confidence indicators adds to the score only.\<close>

fun match_indicators :: "string \<Rightarrow> string list \<Rightarrow> int \<Rightarrow> int" where
  "match_indicators search_text [] sc = sc"
| "match_indicators search_text (indicator # rest) sc =
     match_indicators search_text rest (if py_in indicator search_text then sc + 5 else sc)"

definition score_category :: "string \<Rightarrow> string \<Rightarrow> string \<times> keyword_sets \<Rightarrow> int \<times> string list" where
  "score_category search_text website_text entry =
     (let (sc1, matched1) = match_keywords search_text 10 (primary (snd entry)) (0, []);
          (sc2, matched2) = match_keywords search_text 3 (secondary (snd entry)) (sc1, matched1);
          sc3 = (if website_text \<noteq> []
                 then match_indicators search_text
                        (case map_of CONFIDENCE_INDICATORS (fst entry) of None \<Rightarrow> [] | Some l \<Rightarrow> l) sc2
                 else sc2)
      in (sc3, matched2))"

text \<open>The two dictionaries the scoring loop fills, keyed by category.\<close>

definition category_scores :: "string \<Rightarrow> string \<Rightarrow> (string \<times> int) list" where
  "category_scores search_text website_text =
     map (\<lambda>entry. (fst entry, fst (score_category search_text website_text entry))) CATEGORY_KEYWORDS"

definition matched_keywords_by_category :: "string \<Rightarrow> string \<Rightarrow> (string \<times> string list) list" where
  "matched_keywords_by_category search_text website_text =
     map (\<lambda>entry. (fst entry, snd (score_category search_text website_text entry))) CATEGORY_KEYWORDS"

text \<open>\<open>max(d.values())\<close> and \<open>max(d, key=d.get)\<close>: the first key with the largest value.
  Both are applied to a dictionary that is not empty.\<close>

fun max_value :: "(string \<times> int) list \<Rightarrow> int" where
  "max_value [] = 0"
| "max_value [(k, v)] = v"
| "max_value ((k, v) # rest) = max v (max_value rest)"

fun max_key :: "(string \<times> int) list \<Rightarrow> string \<times> int" where
  "max_key [] = ([], 0)"
| "max_key [(k, v)] = (k, v)"
| "max_key ((k, v) # rest) = (let (k', v') = max_key rest in if v' > v then (k', v') else (k, v))"

text \<open>The confidence curve, before rounding.\<close>

definition confidence_of :: "int \<Rightarrow> real" where
  "confidence_of max_score =
     (if 30 \<le> max_score then min 0.95 (0.7 + of_int (max_score - 30) * 0.01)
      else if 20 \<le> max_score then 0.7 + of_int (max_score - 20) * 0.02
      else if 10 \<le> max_score then 0.5 + of_int (max_score - 10) * 0.02
      else of_int max_score * 0.05)"

text \<open>The loop over the tags of the winning category: a tag is added at its first keyword
  found.\<close>

definition detect_tags :: "string \<Rightarrow> string \<Rightarrow> string list" where
  "detect_tags search_text primary_type =
     (case map_of SECONDARY_TAGS primary_type of
        None \<Rightarrow> []
      | Some tags \<Rightarrow> map fst (filter (\<lambda>(tag, tag_keywords). any_in tag_keywords search_text) tags))"

text \<open>The result.  \<open>list(set(tags))\<close> has the tags in an order that depends on the hashes
  of the strings, so the field is their set.  The key \<open>warning\<close> is present in the
  fall-back result only.\<close>

record classification =
  primary_type :: string
  confidence :: real
  secondary_tags :: "string set"
  matched_keywords :: "string list"
  warning :: "string option"

text \<open>\<open>f"{category} {business_name} {website_text}".lower()\<close>.\<close>

definition search_text_of :: "string \<Rightarrow> string \<Rightarrow> string \<Rightarrow> string" where
  "search_text_of category website_text business_name =
     lower (category @ '' '' @ business_name @ '' '' @ website_text)"

definition classify_business :: "string \<Rightarrow> string \<Rightarrow> string \<Rightarrow> classification" where
  "classify_business category website_text business_name =
     (let search_text = search_text_of category website_text business_name;
          scores = category_scores search_text website_text;
          matched = matched_keywords_by_category search_text website_text
      in if scores = [] \<or> max_value scores = 0
         then \<lparr>primary_type = ''general'',
                confidence = 0,
                secondary_tags = {},
                matched_keywords = [],
                warning = Some ''Could not classify business type''\<rparr>
         else (let best = fst (max_key scores);
                   max_score = (case map_of scores best of None \<Rightarrow> 0 | Some v \<Rightarrow> v)
               in \<lparr>primary_type = best,
                   confidence = py_round (confidence_of max_score) 2,
                   secondary_tags = set (detect_tags search_text best),
                   matched_keywords =
                     take 5 (case map_of matched best of None \<Rightarrow> [] | Some l \<Rightarrow> l),
                   warning = None\<rparr>))"


section \<open>Content extraction (content\_extractor.py)\<close>

subsection \<open>extract\_colors\_from\_text\<close>

definition hex_pattern :: regex where
  "hex_pattern = seqs [cs ''#'', Alt (between is_hex 3 3) (between is_hex 6 6), WordB]"

text \<open>This pattern is searched without \<open>re.IGNORECASE\<close>.\<close>

definition rgb_pattern :: regex where
  "rgb_pattern = seqs [cs ''rgb'', opt_chr (one_of ''a''), rep_star is_space, cs ''('',
     rep_star is_space, Grp 1 (rep_plus is_digit), rep_star is_space, cs '','',
     rep_star is_space, Grp 2 (rep_plus is_digit), rep_star is_space, cs '','',
     rep_star is_space, Grp 3 (rep_plus is_digit),
     Opt (seqs [rep_star is_space, cs '','', rep_star is_space,
                rep_plus (\<lambda>c. is_digit c \<or> c = CHR ''.'')]),
     rep_star is_space, cs '')'']"

definition css_color_pattern :: regex where
  "css_color_pattern = seqs
     [alts (ci ''background-color'') [ci ''color'', ci ''border-color'', ci ''fill'', ci ''stroke''],
      rep_star is_space, cs '':'', rep_star is_space,
      Grp 1 (Alt (seqs [opt_chr (one_of ''#''), between is_hex 3 6])
                 (seqs [ci ''rgb'', opt_chr (ci_chr CHR ''a''), cs ''('',
                        rep_plus (none_of '')''), cs '')'']))]"

definition inline_style_pattern :: regex where
  "inline_style_pattern = seqs
     [ci ''style'', rep_star is_space, cs ''='', rep_star is_space, Chr quote,
      rep_star not_quote, Alt (ci ''background-color'') (ci ''color''),
      rep_star is_space, cs '':'', rep_star is_space,
      Grp 1 (rep_plus (\<lambda>c. c \<noteq> CHR '';'' \<and> \<not> quote c))]"

text \<open>\<open>#RGB\<close> to \<open>#RRGGBB\<close>, for a text of length 4; any other text is left as it is.\<close>

definition expand3 :: "string \<Rightarrow> string" where
  "expand3 color =
     (if length color = 4
      then [CHR ''#'', color ! 1, color ! 1, color ! 2, color ! 2, color ! 3, color ! 3]
      else color)"

text \<open>\<open>f"#{int(r):02X}{int(g):02X}{int(b):02X}"\<close>: the three conversions are made from
  left to right, outside any \<open>try\<close>, and each of them can raise.\<close>

definition rgb_hex :: "string \<Rightarrow> string \<Rightarrow> string \<Rightarrow> string result" where
  "rgb_hex r g b =
     and_then (py_int10 r) (\<lambda>x.
     and_then (py_int10 g) (\<lambda>y.
     and_then (py_int10 b) (\<lambda>z.
       Inr (''#'' @ fmt_02X x @ fmt_02X y @ fmt_02X z))))"

text \<open>The four loops that fill the list \<open>colors\<close>, in the order of the code.  The loop
  over the style properties and the loop over the \<open>rgb\<close> matches can raise.\<close>

definition from_hex_matches :: "string list \<Rightarrow> string list" where
  "from_hex_matches ms = map (\<lambda>color. upper (expand3 color)) ms"

definition from_css_match :: "string \<Rightarrow> string list result" where
  "from_css_match color =
     (if prefix ''#'' color then Inr [upper (expand3 color)]
      else if prefix ''rgb'' color
      then (let rgb_vals = findall0 (rep_plus is_digit) color
            in if 3 \<le> length rgb_vals
               then and_then (rgb_hex (rgb_vals ! 0) (rgb_vals ! 1) (rgb_vals ! 2))
                      (\<lambda>hex_color. Inr [hex_color])
               else Inr [])
      else Inr [])"

definition from_inline_match :: "string \<Rightarrow> string list" where
  "from_inline_match color0 =
     (let color = strip color0
      in if prefix ''#'' color then [upper (expand3 color)] else [])"

definition from_rgb_match :: "rmatch_result \<Rightarrow> string result" where
  "from_rgb_match m = rgb_hex (group_str m 1) (group_str m 2) (group_str m 3)"

definition collect_colors :: "string \<Rightarrow> string list result" where
  "collect_colors html_content =
     (let hex_matches = findall0 hex_pattern html_content;
          rgb_matches = re_finditer rgb_pattern html_content;
          css_matches = findall1 css_color_pattern html_content;
          inline_matches = findall1 inline_style_pattern html_content
      in and_then (for_each from_css_match css_matches) (\<lambda>from_css.
         and_then (for_each from_rgb_match rgb_matches) (\<lambda>from_rgb.
           Inr (from_hex_matches hex_matches
                @ concat from_css
                @ concat (map from_inline_match inline_matches)
                @ from_rgb))))"

text \<open>\<open>collections.Counter\<close>: the keys in the order of their first occurrence, each with
  its count.  \<open>most_common(n)\<close> sorts by falling count, keeps the order of the counter
  among equal counts, and takes the first \<open>n\<close>.\<close>

definition counter :: "'a list \<Rightarrow> ('a \<times> nat) list" where
  "counter xs = map (\<lambda>x. (x, count_list xs x)) (rev (remdups (rev xs)))"

definition most_common :: "nat \<Rightarrow> ('a \<times> nat) list \<Rightarrow> ('a \<times> nat) list" where
  "most_common n c = take n (sort_key (\<lambda>(x, k). - int k) c)"

text \<open>The filter: the listed defaults are dropped; a text of length 7 whose three pairs
  of digits are all above 250 or all below 5 is dropped; where a pair does not parse,
  the \<open>except\<close> clause lets the text through.\<close>

definition keep_color :: "string \<Rightarrow> bool" where
  "keep_color color =
     (if color \<in> set [''#FFFFFF'', ''#000000'', ''#FFF'', ''#000'', ''#FEFEFE'', ''#010101'']
      then False
      else if length color = 7
      then (case py_int16 (take 2 (drop 1 color)) of
              None \<Rightarrow> True
            | Some r \<Rightarrow>
               (case py_int16 (take 2 (drop 3 color)) of
                  None \<Rightarrow> True
                | Some g \<Rightarrow>
                   (case py_int16 (take 2 (drop 5 color)) of
                      None \<Rightarrow> True
                    | Some b \<Rightarrow>
                       \<not> ((250 < r \<and> 250 < g \<and> 250 < b) \<or> (r < 5 \<and> g < 5 \<and> b < 5)))))
      else True)"

definition extract_colors_from_text :: "string \<Rightarrow> string list result" where
  "extract_colors_from_text html_content =
     and_then (collect_colors html_content) (\<lambda>colors.
       (let color_counts = counter colors;
            filtered_colors = filter keep_color (map fst color_counts)
        in Inr (map fst (most_common 8 (counter filtered_colors)))))"

subsection \<open>URLs\<close>

text \<open>\<open>urllib.parse.urljoin\<close>: with an empty base the reference is the result, with an
  empty reference the base is; in every other case the standard library parses both and
  resolves the reference against the base, and raises \<open>ValueError\<close> when one of them is
  malformed (a host that opens a bracket and does not close it, for one).  That
  resolution, with its error, is a parameter (\<open>resolve\<close>) of the functions that join
  URLs; they call it outside any \<open>try\<close>.\<close>

type_synonym resolver = "string \<Rightarrow> string \<Rightarrow> string result"

definition urljoin :: "resolver \<Rightarrow> string \<Rightarrow> string \<Rightarrow> string result" where
  "urljoin resolve base url =
     (if base = [] then Inr url else if url = [] then Inr base else resolve base url)"

subsection \<open>extract\_logo\_urls\<close>

definition logo_word :: "string \<Rightarrow> regex" where
  "logo_word attr = seqs [ci attr, Chr quote, rep_star not_quote, ci ''logo'',
     rep_star not_quote, Chr quote]"

definition src_group :: regex where
  "src_group = seqs [ci ''src='', Chr quote, Grp 1 (rep_plus not_quote), Chr quote]"

definition logo_patterns :: "regex list" where
  "logo_patterns =
     [seqs [ci ''<img'', rep_plus not_gt, logo_word ''class='', rep_plus not_gt, src_group],
      seqs [ci ''<img'', rep_plus not_gt, src_group, rep_plus not_gt, logo_word ''class=''],
      seqs [ci ''<img'', rep_plus not_gt, logo_word ''alt='', rep_plus not_gt, src_group],
      seqs [ci ''<img'', rep_plus not_gt, logo_word ''id='', rep_plus not_gt, src_group],
      seqs [ci ''<a'', rep_plus not_gt, logo_word ''class='', rep_star not_gt, cs ''>'',
            rep_star is_space, ci ''<img'', rep_plus not_gt, src_group]]"

text \<open>The inner loop, over the matches of one pattern, and the outer loop, over the
  patterns; a join that raises ends both.\<close>

fun add_logos :: "resolver \<Rightarrow> string \<Rightarrow> string list \<Rightarrow> string list \<Rightarrow> string list result" where
  "add_logos resolve base_url [] logo_urls = Inr logo_urls"
| "add_logos resolve base_url (m # ms) logo_urls =
     (case urljoin resolve base_url m of
        Inl e \<Rightarrow> Inl e
      | Inr absolute_url \<Rightarrow>
          add_logos resolve base_url ms
            (if absolute_url \<notin> set logo_urls then logo_urls @ [absolute_url] else logo_urls))"

fun logo_loop :: "resolver \<Rightarrow> string \<Rightarrow> string \<Rightarrow> regex list \<Rightarrow> string list \<Rightarrow> string list result" where
  "logo_loop resolve html_content base_url [] logo_urls = Inr logo_urls"
| "logo_loop resolve html_content base_url (pattern # rest) logo_urls =
     (case add_logos resolve base_url (findall1 pattern html_content) logo_urls of
        Inl e \<Rightarrow> Inl e
      | Inr logo_urls' \<Rightarrow> logo_loop resolve html_content base_url rest logo_urls')"

definition extract_logo_urls :: "resolver \<Rightarrow> string \<Rightarrow> string \<Rightarrow> string list result" where
  "extract_logo_urls resolve html_content base_url =
     logo_loop resolve html_content base_url logo_patterns []"

subsection \<open>extract\_text\_content\<close>

record text_content =
  full_text :: string
  about :: string
  services :: string
  contact_text :: string

definition script_block :: regex where
  "script_block = seqs [ci ''<script'', rep_star not_gt, cs ''>'', rep_lazy dot_all, ci ''</script>'']"

definition style_block :: regex where
  "style_block = seqs [ci ''<style'', rep_star not_gt, cs ''>'', rep_lazy dot_all, ci ''</style>'']"

definition tag_pattern :: regex where
  "tag_pattern = seqs [cs ''<'', rep_plus not_gt, cs ''>'']"

definition section_body :: regex where
  "section_body = seqs [rep_star (\<lambda>c. is_space c \<or> c = CHR '':''),
     Grp 1 (between (none_of ''.'') 50 500)]"

definition about_pattern :: regex where
  "about_pattern = Seq
     (alts (ci_words [''about'', ''us''])
        [ci ''about'', ci_words [''who'', ''we'', ''are''], ci_words [''our'', ''story'']])
     section_body"

definition services_pattern :: regex where
  "services_pattern = Seq
     (alts (ci_words [''our'', ''services''])
        [ci ''services'', ci_words [''what'', ''we'', ''do''], ci ''offerings''])
     section_body"

definition plain :: "string \<Rightarrow> string" where
  "plain t = strip (re_sub (rep_plus is_space) '' '' (re_sub tag_pattern '' '' t))"

definition section_text :: "regex \<Rightarrow> string \<Rightarrow> string" where
  "section_text pattern html_content =
     (case re_search pattern html_content of
        None \<Rightarrow> []
      | Some m \<Rightarrow> take 500 (plain (group_str m 1)))"

definition extract_text_content :: "string \<Rightarrow> text_content" where
  "extract_text_content html_content =
     (let cleaned = re_sub style_block [] (re_sub script_block [] html_content);
          text = plain cleaned
      in \<lparr>full_text = take 5000 text,
          about = section_text about_pattern html_content,
          services = section_text services_pattern html_content,
          contact_text = []\<rparr>)"


subsection \<open>extract\_contact\_info\<close>

record contact =
  phone :: "string option"
  email :: "string option"
  address :: "string option"

definition sep :: "char \<Rightarrow> bool" where
  "sep c = (c = CHR ''-'' \<or> c = CHR ''.'' \<or> is_space c)"

definition phone_patterns :: "regex list" where
  "phone_patterns =
     [seqs [opt_chr (one_of ''+''), between is_digit 1 4, opt_chr sep, opt_chr (one_of ''(''),
            between is_digit 1 4, opt_chr (one_of '')''), opt_chr sep, between is_digit 1 4,
            opt_chr sep, between is_digit 1 9],
      seqs [between is_digit 3 3, opt_chr sep, between is_digit 3 3, opt_chr sep,
            between is_digit 4 4],
      seqs [between is_digit 5 5, opt_chr is_space, between is_digit 6 6]]"

text \<open>The last class of the e-mail pattern is \<open>[A-Z|a-z]\<close>: letters and the bar.\<close>

definition email_pattern :: regex where
  "email_pattern = seqs [WordB,
     rep_plus (\<lambda>c. is_upper c \<or> is_lower c \<or> is_digit c \<or> c \<in> set ''._%+-''),
     cs ''@'',
     rep_plus (\<lambda>c. is_upper c \<or> is_lower c \<or> is_digit c \<or> c \<in> set ''.-''),
     cs ''.'',
     Rep (\<lambda>c. is_upper c \<or> is_lower c \<or> c = CHR ''|'') 2 None True,
     WordB]"

text \<open>A value of the field \<open>phone\<close> is false in a condition when it is \<open>None\<close> or the
  empty text.\<close>

definition falsy :: "string option \<Rightarrow> bool" where
  "falsy v = (v = None \<or> v = Some [])"

text \<open>The loop over the phone patterns: it goes on to the next pattern as long as the
  condition fails, and stops at the first pattern for which it holds.\<close>

fun phone_loop :: "regex list \<Rightarrow> string \<Rightarrow> string option \<Rightarrow> string option" where
  "phone_loop [] html_content ph = ph"
| "phone_loop (pattern # rest) html_content ph =
     (let phones = findall0 pattern html_content
      in if phones \<noteq> [] \<and> falsy ph then Some (hd phones)
         else phone_loop rest html_content ph)"

definition valid_email :: "string \<Rightarrow> bool" where
  "valid_email e = (\<not> any_in [''noreply'', ''example'', ''test'', ''spam''] (lower e))"

definition extract_contact_info :: "string \<Rightarrow> string option \<Rightarrow> contact" where
  "extract_contact_info html_content business_phone =
     (let ph = phone_loop phone_patterns html_content business_phone;
          emails = findall0 email_pattern html_content;
          valid_emails = filter valid_email emails
      in \<lparr>phone = ph,
          email = (if valid_emails \<noteq> [] then Some (hd valid_emails) else None),
          address = None\<rparr>)"

subsection \<open>extract\_images\<close>

record image =
  url :: string
  alt :: string
  img_type :: string

definition img_pattern :: regex where
  "img_pattern = seqs [ci ''<img'', rep_plus not_gt, src_group,
     Opt (seqs [rep_plus not_gt, ci ''alt='', Chr quote, Grp 2 (rep_star not_quote), Chr quote]),
     rep_star not_gt, cs ''>'']"

definition skip_words :: "string list" where
  "skip_words = [''icon'', ''pixel'', ''track'', ''1x1'', ''spacer'']"

definition image_type :: "string \<Rightarrow> string \<Rightarrow> string" where
  "image_type src a =
     (if any_in [''logo'', ''brand''] (lower (src @ a)) then ''logo''
      else if any_in [''hero'', ''banner'', ''header''] (lower (src @ a)) then ''hero''
      else if any_in [''product'', ''service'', ''portfolio''] (lower (src @ a)) then ''content''
      else ''general'')"

text \<open>The loop over the matches: a match whose source looks like an icon or a tracking
  pixel is skipped, every other match adds an image; a join that raises ends the loop
  and the function.\<close>

fun image_loop :: "resolver \<Rightarrow> string \<Rightarrow> (string \<times> string) list \<Rightarrow> image list result" where
  "image_loop resolve base_url [] = Inr []"
| "image_loop resolve base_url ((src, a) # rest) =
     (if any_in skip_words (lower src) then image_loop resolve base_url rest
      else (case urljoin resolve base_url src of
              Inl e \<Rightarrow> Inl e
            | Inr absolute_url \<Rightarrow>
               (case image_loop resolve base_url rest of
                  Inl e \<Rightarrow> Inl e
                | Inr imgs \<Rightarrow>
                    Inr (\<lparr>url = absolute_url, alt = a, img_type = image_type src a\<rparr> # imgs))))"

definition img_matches :: "string \<Rightarrow> (string \<times> string) list" where
  "img_matches html_content =
     map (\<lambda>m. (group_str m 1, group_str m 2)) (re_finditer img_pattern html_content)"

definition extract_images :: "resolver \<Rightarrow> string \<Rightarrow> string \<Rightarrow> nat \<Rightarrow> image list result" where
  "extract_images resolve html_content base_url limit =
     image_loop resolve base_url (take limit (img_matches html_content))"

subsection \<open>extract\_business\_content\<close>

record metadata =
  total_colors_found :: nat
  total_images_found :: nat
  has_logo :: bool
  has_about_section :: bool
  has_services_section :: bool
  has_contact_info :: bool

record extraction =
  colors :: "string list"
  logos :: "string list"
  text_sections :: text_content
  contact_info :: contact
  images :: "image list"
  meta :: metadata

text \<open>The five extractions run in this order; the first one that raises ends the
  function, which has no \<open>try\<close> of its own.\<close>

definition build_result ::
  "string list \<Rightarrow> string list \<Rightarrow> text_content \<Rightarrow> contact \<Rightarrow> image list \<Rightarrow> extraction" where
  "build_result cols lgs txt con imgs =
     \<lparr>colors = cols,
      logos = lgs,
      text_sections = txt,
      contact_info = con,
      images = imgs,
      meta = \<lparr>total_colors_found = length cols,
               total_images_found = length imgs,
               has_logo = (0 < length lgs),
               has_about_section = (50 < length (about txt)),
               has_services_section = (50 < length (services txt)),
               has_contact_info =
                 (\<not> falsy (phone con) \<or> \<not> falsy (email con) \<or> \<not> falsy (address con))\<rparr>\<rparr>"

definition extract_business_content ::
  "resolver \<Rightarrow> string \<Rightarrow> string \<Rightarrow> string option \<Rightarrow> extraction result" where
  "extract_business_content resolve html_content base_url business_phone =
     and_then (extract_colors_from_text html_content) (\<lambda>cols.
     and_then (extract_logo_urls resolve html_content base_url) (\<lambda>lgs.
       (let txt = extract_text_content html_content;
            con = extract_contact_info html_content business_phone
        in and_then (extract_images resolve html_content base_url 15) (\<lambda>imgs.
             Inr (build_result cols lgs txt con imgs)))))"


section \<open>What the specification says, for comparison\<close>

text \<open>The fixed penalty of each issue a check can report.  An issue is recognised by its
  text; where the text carries a number (a count, a size), by the fixed part of it.
  The first entry of a table that recognises the issue gives its penalty.\<close>

type_synonym penalty_table = "((string \<Rightarrow> bool) \<times> int) list"

definition penalty_of :: "penalty_table \<Rightarrow> string \<Rightarrow> int" where
  "penalty_of table issue =
     (case find (\<lambda>entry. fst entry issue) table of None \<Rightarrow> 0 | Some entry \<Rightarrow> snd entry)"

definition mobile_penalties :: penalty_table where
  "mobile_penalties =
     [((=) ''Missing viewport meta tag for mobile devices'', 40),
      ((=) ''No CSS media queries detected (likely not responsive)'', 30),
      ((=) ''No mobile-friendly CSS framework detected'', 20)]"

definition seo_penalties :: penalty_table where
  "seo_penalties =
     [(suffix '' images missing alt attributes'', 15),
      ((=) ''Missing or too-short title tag'', 20),
      ((=) ''Title tag too long (>60 chars)'', 5),
      ((=) ''Missing meta description'', 20),
      ((=) ''No H1 heading found'', 15),
      ((=) ''Multiple H1 headings (should be only one)'', 5),
      ((=) ''No H2 headings found (poor content structure)'', 10),
      ((=) ''No schema.org structured data found'', 15)]"

definition performance_penalties :: penalty_table where
  "performance_penalties =
     [(prefix ''Large HTML size ('', 20),
      (prefix ''Moderate HTML size ('', 10),
      (prefix ''Many external scripts ('', 15),
      (prefix ''Many external stylesheets ('', 10),
      ((=) ''No lazy loading detected for images'', 10),
      ((=) ''HTML not minified (contains comments/excess whitespace)'', 10)]"

definition missing_penalties :: penalty_table where
  "missing_penalties =
     [(prefix ''Missing business-specific: '', 10),
      (prefix ''Missing '', 15)]"

text \<open>What the design check would subtract if it were such a check: 15 for each outdated
  feature it reports.\<close>

definition design_penalties :: penalty_table where
  "design_penalties = [(prefix ''Outdated: '', 15)]"

text \<open>A report whose score is 100 minus the penalty of each of its issues, floored
  at 0.\<close>

definition from_100 :: "penalty_table \<Rightarrow> 'a report_scheme \<Rightarrow> bool" where
  "from_100 table r = (score r = max 0 (100 - sum_list (map (penalty_of table) (issues r))))"

text \<open>The same for the state of a check that is under way.\<close>

definition accounted :: "penalty_table \<Rightarrow> check_state \<Rightarrow> bool" where
  "accounted table st =
     (cs_score st = 100 - sum_list (map (penalty_of table) (cs_issues st)))"

text \<open>The number of outdated features found in a page.\<close>

definition count_outdated :: "string \<Rightarrow> int" where
  "count_outdated html_content =
     int (length (filter (\<lambda>entry. feature_found html_content (snd entry))
                    (outdated_features html_content)))"

text \<open>The weighted sum of the five scores of a report, and that sum clamped to the
  interval from 0 to 100.\<close>

definition scores_weighted_sum :: "gap_report \<Rightarrow> real" where
  "scores_weighted_sum r = weighted_sum (score (mobile r)) (score (design r)) (score (seo r))
     (score (performance r)) (score (missing_sections r))"

definition spec_overall_score :: "gap_report \<Rightarrow> real" where
  "spec_overall_score r = max 0 (min 100 (scores_weighted_sum r))"

text \<open>The twelve entries of the taxonomy, and the winning score: the largest score of a
  category for the given inputs.\<close>

definition taxonomy :: "string list" where
  "taxonomy = [''restaurant'', ''professional'', ''home_services'', ''health_medical'',
     ''beauty_wellness'', ''fitness'', ''retail'', ''real_estate'', ''automotive'',
     ''education'', ''creative'', ''hospitality'']"

definition winning_score :: "string \<Rightarrow> string \<Rightarrow> string \<Rightarrow> int" where
  "winning_score category website_text business_name =
     max_value (category_scores (search_text_of category website_text business_name) website_text)"

definition all_scores_zero :: "string \<Rightarrow> string \<Rightarrow> string \<Rightarrow> bool" where
  "all_scores_zero category website_text business_name =
     list_all (\<lambda>entry. snd entry = 0)
       (category_scores (search_text_of category website_text business_name) website_text)"

text \<open>The sub-reports whose severity is high or critical, under the names the analyzer
  gives them in its list.\<close>

definition spec_priority_gaps :: "gap_report \<Rightarrow> string list" where
  "spec_priority_gaps r = map fst (filter (\<lambda>(gap, tier). tier = ''high'' \<or> tier = ''critical'')
     [(''mobile_responsiveness'', severity (mobile r)),
      (''modern_design'', severity (design r)),
      (''seo_optimization'', severity (seo r)),
      (''performance'', severity (performance r)),
      (''key_sections'', severity (missing_sections r))])"


text \<open>A hex code of the form \<open>#RRGGBB\<close>.\<close>

definition well_formed_hex :: "string \<Rightarrow> bool" where
  "well_formed_hex c = (length c = 7 \<and> hd c = CHR ''#'' \<and> list_all is_hex (tl c))"

text \<open>The phone number the patterns find: the first match of the first pattern, in the
  order of the list, that matches at all.  With the known number as a fall-back only,
  the field would be that match whenever there is one.\<close>

definition first_phone_match :: "string \<Rightarrow> string option" where
  "first_phone_match html_content =
     (case find (\<lambda>pattern. findall0 pattern html_content \<noteq> []) phone_patterns of
        None \<Rightarrow> None
      | Some pattern \<Rightarrow> Some (hd (findall0 pattern html_content)))"

definition spec_phone :: "string \<Rightarrow> string option \<Rightarrow> string option" where
  "spec_phone html_content business_phone =
     (case first_phone_match html_content of None \<Rightarrow> business_phone | Some m \<Rightarrow> Some m)"

text \<open>An image that is derived from a match of the image pattern: its source has none
  of the skip words, the join of its source succeeds and gives the URL of the image, and
  the alternative text is that of the match.\<close>

definition from_match :: "resolver \<Rightarrow> string \<Rightarrow> (string \<times> string) list \<Rightarrow> image \<Rightarrow> bool" where
  "from_match resolve base_url ms img =
     list_ex (\<lambda>m. \<not> any_in skip_words (lower (fst m)) \<and>
                   urljoin resolve base_url (fst m) = Inr (url img) \<and> alt img = snd m) ms"

text \<open>No join raises: every match is skipped or has a source that joins.\<close>

definition joins_ok :: "resolver \<Rightarrow> string \<Rightarrow> (string \<times> string) list \<Rightarrow> bool" where
  "joins_ok resolve base_url ms =
     list_all (\<lambda>m. any_in skip_words (lower (fst m)) \<or> \<not> isl (urljoin resolve base_url (fst m))) ms"

text \<open>The image list of a result, when there is a result.\<close>

definition images_of :: "extraction result \<Rightarrow> image list option" where
  "images_of r = (case r of Inl e \<Rightarrow> None | Inr content \<Rightarrow> Some (images content))"

text \<open>Two resolutions for the examples.  The first returns the reference as it is; the
  examples use it with an empty base, where \<open>urljoin\<close> does not resolve.  The second
  raises, as the standard library does on the reference \<open>//[\<close>.\<close>

definition keep_reference :: resolver where
  "keep_reference base reference = Inr reference"

definition reject_reference :: resolver where
  "reject_reference base reference = Inl ValueError"

text \<open>A gap report without findings: no priority gap and no issue.\<close>

definition empty_gap_report :: "gap_report \<Rightarrow> bool" where
  "empty_gap_report r = (priority_gaps r = [] \<and> total_issues r = 0)"

text \<open>A page with eleven external scripts.\<close>

definition eleven_scripts :: string where
  "eleven_scripts = concat (replicate 11 ''<script src=>'')"

section \<open>Gap analysis: evaluation on small pages\<close>

lemma mobile_empty: "check_mobile_responsiveness '''' =
  \<lparr>score = 10,
   issues = [''Missing viewport meta tag for mobile devices'',
             ''No CSS media queries detected (likely not responsive)'',
             ''No mobile-friendly CSS framework detected''],
   severity = ''critical'', has_viewport = False, has_media_queries = False,
   has_mobile_framework = False\<rparr>"
  by code_simp

lemma design_empty: "check_design_modernity '''' =
  \<lparr>score = 0,
   issues = [''Very few modern CSS features detected'',
             ''Design appears basic/minimal (not necessarily bad, but could be enhanced)''],
   severity = ''critical'', modern_indicators = 0, outdated_indicators = 0\<rparr>"
  by code_simp

lemma seo_empty: "check_seo_basics '''' business_name =
  \<lparr>score = 20,
   issues = [''Missing or too-short title tag'', ''Missing meta description'',
             ''No H1 heading found'', ''No H2 headings found (poor content structure)'',
             ''No schema.org structured data found''],
   severity = ''high'', has_title = False, has_meta_description = False, h1_count = 0,
   has_schema = False, images_without_alt = 0\<rparr>"
  unfolding check_seo_basics_def by code_simp

lemma performance_empty: "check_performance_indicators '''' =
  \<lparr>score = 90,
   issues = [''No lazy loading detected for images''],
   severity = ''low'', page_size_kb = 0, script_count = 0, stylesheet_count = 0,
   has_lazy_loading = False, is_minified = True\<rparr>"
  by code_simp

lemma universal_empty: "scan_sections '''' ''Missing '' 15 universal_sections start =
  \<lparr>cs_issues = [''Missing contact form'', ''Missing testimonials'', ''Missing about'',
                 ''Missing call to action''],
   cs_score = 40\<rparr>"
  by code_simp

lemma missing_empty_general: "check_missing_sections '''' ''general'' =
  \<lparr>score = 40,
   issues = [''Missing contact form'', ''Missing testimonials'', ''Missing about'',
             ''Missing call to action''],
   severity = ''high'', missing_sections_count = 4\<rparr>"
  by code_simp

lemma missing_empty_restaurant: "check_missing_sections '''' ''restaurant'' =
  \<lparr>score = 10,
   issues = [''Missing contact form'', ''Missing testimonials'', ''Missing about'',
             ''Missing call to action'', ''Missing business-specific: menu'',
             ''Missing business-specific: reservation'', ''Missing business-specific: location map''],
   severity = ''high'', missing_sections_count = 7\<rparr>"
  by code_simp

lemma missing_empty_home_services: "check_missing_sections '''' ''home_services'' =
  \<lparr>score = 10,
   issues = [''Missing contact form'', ''Missing testimonials'', ''Missing about'',
             ''Missing call to action'', ''Missing business-specific: service area'',
             ''Missing business-specific: emergency contact'', ''Missing business-specific: certifications''],
   severity = ''high'', missing_sections_count = 7\<rparr>"
  by code_simp

lemma missing_empty_professional: "check_missing_sections '''' ''professional'' =
  \<lparr>score = 10,
   issues = [''Missing contact form'', ''Missing testimonials'', ''Missing about'',
             ''Missing call to action'', ''Missing business-specific: credentials'',
             ''Missing business-specific: case studies'', ''Missing business-specific: consultation''],
   severity = ''high'', missing_sections_count = 7\<rparr>"
  by code_simp

lemma specific_keys: "map fst business_specific = [''restaurant'', ''home_services'', ''professional'']"
  by (simp add: business_specific_def)

lemma missing_empty_other:
  assumes "business_type \<notin> set [''restaurant'', ''home_services'', ''professional'']"
  shows "check_missing_sections '''' business_type =
  \<lparr>score = 40,
   issues = [''Missing contact form'', ''Missing testimonials'', ''Missing about'',
             ''Missing call to action''],
   severity = ''high'', missing_sections_count = 4\<rparr>"
proof -
  have "map_of business_specific business_type = None"
    using assms specific_keys by (metis map_of_eq_None_iff set_map)
  then show ?thesis by (simp add: check_missing_sections_def universal_empty)
qed

lemma missing_empty_facts:
  "severity (check_missing_sections '''' business_type) = ''high'' \<and>
   score (check_missing_sections '''' business_type) =
     (if business_type \<in> set [''restaurant'', ''home_services'', ''professional''] then 10 else 40) \<and>
   length (issues (check_missing_sections '''' business_type)) =
     (if business_type \<in> set [''restaurant'', ''home_services'', ''professional''] then 7 else 4)"
proof (cases "business_type \<in> set [''restaurant'', ''home_services'', ''professional'']")
  case True
  then consider "business_type = ''restaurant''" | "business_type = ''home_services''"
    | "business_type = ''professional''" by auto
  then show ?thesis
  proof cases
    case 1 then show ?thesis by (simp add: missing_empty_restaurant)
  next
    case 2 then show ?thesis by (simp add: missing_empty_home_services)
  next
    case 3 then show ?thesis by (simp add: missing_empty_professional)
  qed
next
  case False
  then show ?thesis using missing_empty_other[OF False] by simp
qed

lemma gaps_empty_general: "analyze_website_gaps '''' business_name ''general'' =
  \<lparr>overall_score = 25,
   priority_gaps = [''mobile_responsiveness'', ''modern_design'', ''seo_optimization'', ''key_sections''],
   mobile = check_mobile_responsiveness '''',
   design = check_design_modernity '''',
   seo = check_seo_basics '''' business_name,
   performance = check_performance_indicators '''',
   missing_sections = check_missing_sections '''' ''general'',
   recommendations =
     [''Implement mobile-first responsive design with proper viewport and media queries'',
      ''Modernize design with flexbox/grid layouts, contemporary colors, and smooth animations'',
      ''Add proper meta tags, structured headings, schema.org markup, and image alt text'',
      ''Add missing sections important for general businesses''],
   gap_count = 4,
   total_issues = 15\<rparr>"
  by (simp add: analyze_website_gaps_def Let_def mobile_empty design_empty seo_empty
      performance_empty missing_empty_general weighted_sum_def py_int_def
      find_priority_gaps_def recommend_def append_if_def)

lemma design_three_modern: "check_design_modernity ''display:flex display:grid transition:'' =
  \<lparr>score = 30, issues = [], severity = ''high'', modern_indicators = 3, outdated_indicators = 0\<rparr>"
  by code_simp

lemma design_font_tag: "check_design_modernity ''display:flex display:grid transition:<font>'' =
  \<lparr>score = 15, issues = [''Outdated: font tags''], severity = ''critical'',
   modern_indicators = 3, outdated_indicators = 1\<rparr>"
  by code_simp

lemma seo_four_images: "check_seo_basics ''<img><img><img><img>'' '''' =
  \<lparr>score = 5,
   issues = [''Missing or too-short title tag'', ''Missing meta description'',
             ''No H1 heading found'', ''No H2 headings found (poor content structure)'',
             ''4 images missing alt attributes'', ''No schema.org structured data found''],
   severity = ''high'', has_title = False, has_meta_description = False, h1_count = 0,
   has_schema = False, images_without_alt = 4\<rparr>"
  by code_simp

lemma performance_eleven_scripts: "check_performance_indicators eleven_scripts =
  \<lparr>score = 75,
   issues = [''Many external scripts (11)'', ''No lazy loading detected for images''],
   severity = ''low'', page_size_kb = 1 / 10, script_count = 11, stylesheet_count = 0,
   has_lazy_loading = False, is_minified = True\<rparr>"
  by code_simp

section \<open>Gap analysis: scores and severities\<close>

lemma cs_score_start: "cs_score start = 100" by (simp add: start_def)

lemma cs_score_penalize: "cs_score (penalize m n st) = cs_score st - n" by (simp add: penalize_def)

lemma cs_score_penalize_if: "cs_score (penalize_if b m n st) = (if b then cs_score st - n else cs_score st)"
  by (simp add: penalize_if_def penalize_def)

lemma scan_sections_le: "0 \<le> n \<Longrightarrow> cs_score (scan_sections h l n secs st) \<le> cs_score st"
proof (induction secs arbitrary: st)
  case Nil then show ?case by simp
next
  case (Cons a secs)
  obtain nm pat where a: "a = (nm, pat)" by (cases a)
  have "cs_score (scan_sections h l n secs (penalize_if (\<not> re_found pat h) (l @ replace_underscore nm) n st))
        \<le> cs_score (penalize_if (\<not> re_found pat h) (l @ replace_underscore nm) n st)"
    using Cons by blast
  also have "\<dots> \<le> cs_score st" using Cons.prems by (simp add: cs_score_penalize_if)
  finally show ?case by (simp add: a)
qed

lemma mobile_score_range: "0 \<le> score (check_mobile_responsiveness h) \<and> score (check_mobile_responsiveness h) \<le> 100"
  by (simp add: check_mobile_responsiveness_def Let_def cs_score_penalize_if cs_score_start)

lemma design_score_range: "0 \<le> score (check_design_modernity h) \<and> score (check_design_modernity h) \<le> 100"
  by (simp add: check_design_modernity_def Let_def split: prod.split)

lemma seo_score_range: "0 \<le> score (check_seo_basics h n) \<and> score (check_seo_basics h n) \<le> 100"
  by (simp add: check_seo_basics_def Let_def cs_score_penalize_if cs_score_penalize cs_score_start)

lemma performance_score_range: "0 \<le> score (check_performance_indicators h) \<and> score (check_performance_indicators h) \<le> 100"
  by (simp add: check_performance_indicators_def Let_def cs_score_penalize_if cs_score_penalize cs_score_start)

lemma missing_score_range: "0 \<le> score (check_missing_sections h bt) \<and> score (check_missing_sections h bt) \<le> 100"
proof -
  have 1: "cs_score (scan_sections h ''Missing '' 15 universal_sections start) \<le> 100"
    using scan_sections_le[of 15 h "''Missing ''" universal_sections start] by (simp add: cs_score_start)
  have 2: "cs_score (scan_sections h ''Missing business-specific: '' 10 secs
             (scan_sections h ''Missing '' 15 universal_sections start)) \<le> 100" for secs
    using scan_sections_le[of 10 h "''Missing business-specific: ''" secs
            "scan_sections h ''Missing '' 15 universal_sections start"] 1 by simp
  show ?thesis using 1 2 by (simp add: check_missing_sections_def Let_def split: option.split)
qed

lemma seo_severity: "severity (check_seo_basics h n) \<in> {''high'', ''medium'', ''low''}"
  by (simp add: check_seo_basics_def Let_def)

lemma performance_severity: "severity (check_performance_indicators h) \<in> {''high'', ''medium'', ''low''}"
  by (simp add: check_performance_indicators_def Let_def)

lemma missing_severity: "severity (check_missing_sections h bt) \<in> {''high'', ''medium'', ''low''}"
  by (simp add: check_missing_sections_def Let_def)

lemma seo_not_critical: "severity (check_seo_basics h n) \<noteq> ''critical''"
  using seo_severity[of h n] by auto

lemma performance_not_critical: "severity (check_performance_indicators h) \<noteq> ''critical''"
  using performance_severity[of h] by auto

lemma missing_not_critical: "severity (check_missing_sections h bt) \<noteq> ''critical''"
  using missing_severity[of h bt] by auto

text \<open>
  Claim C10.  For every page and business type, the severity of the SEO, performance and
  missing-sections sub-reports is one of high, medium and low, and is never critical;
  the mobile and the design sub-reports can be critical (they are on the empty page).
\<close>

theorem critical_only_mobile_design:
  "severity (check_seo_basics html_content business_name) \<in> {''high'', ''medium'', ''low''} \<and>
   severity (check_performance_indicators html_content) \<in> {''high'', ''medium'', ''low''} \<and>
   severity (check_missing_sections html_content business_type) \<in> {''high'', ''medium'', ''low''} \<and>
   severity (check_seo_basics html_content business_name) \<noteq> ''critical'' \<and>
   severity (check_performance_indicators html_content) \<noteq> ''critical'' \<and>
   severity (check_missing_sections html_content business_type) \<noteq> ''critical'' \<and>
   severity (check_mobile_responsiveness '''') = ''critical'' \<and>
   severity (check_design_modernity '''') = ''critical''"
  using seo_severity performance_severity missing_severity
    seo_not_critical performance_not_critical missing_not_critical
  by (simp add: mobile_empty design_empty)

text \<open>The theorem of claim C10 at the empty page.\<close>

theorem critical_only_mobile_design_witness:
  "severity (check_seo_basics '''' '''') = ''high'' \<and>
   severity (check_performance_indicators '''') = ''low'' \<and>
   severity (check_mobile_responsiveness '''') = ''critical'' \<and>
   severity (check_design_modernity '''') = ''critical''"
  using critical_only_mobile_design [of "''''" "''''" "''general''"]
  by (simp add: seo_empty performance_empty)

text \<open>
  Claim C4.  For every page, business name and business type, the list of priority gaps
  of the report holds exactly the sub-reports whose severity is high or critical, and it
  is a function of the five severities alone.
\<close>

theorem priority_gaps_high_or_critical:
  "priority_gaps (analyze_website_gaps html_content business_name business_type) =
   spec_priority_gaps (analyze_website_gaps html_content business_name business_type)"
  using seo_not_critical[of html_content business_name]
    performance_not_critical[of html_content] missing_not_critical[of html_content business_type]
  by (simp add: analyze_website_gaps_def spec_priority_gaps_def find_priority_gaps_def
      append_if_def Let_def)

text \<open>The theorem of claim C4 at the empty page.\<close>

theorem priority_gaps_high_or_critical_witness:
  "spec_priority_gaps (analyze_website_gaps '''' ''Acme'' ''general'') =
     [''mobile_responsiveness'', ''modern_design'', ''seo_optimization'', ''key_sections'']"
  using priority_gaps_high_or_critical [of "''''" "''Acme''" "''general''"]
  by (simp add: gaps_empty_general)

lemma py_int_floor: "0 \<le> x \<Longrightarrow> py_int x = \<lfloor>x\<rfloor>" by (simp add: py_int_def)

lemma weighted_sum_range:
  assumes "0 \<le> m \<and> m \<le> 100" "0 \<le> d \<and> d \<le> 100" "0 \<le> s \<and> s \<le> 100"
    "0 \<le> p \<and> p \<le> 100" "0 \<le> x \<and> x \<le> 100"
  shows "0 \<le> weighted_sum m d s p x \<and> weighted_sum m d s p x \<le> 100"
proof -
  have "0 \<le> (of_int m :: real) \<and> (of_int m :: real) \<le> 100"
    "0 \<le> (of_int d :: real) \<and> (of_int d :: real) \<le> 100"
    "0 \<le> (of_int s :: real) \<and> (of_int s :: real) \<le> 100"
    "0 \<le> (of_int p :: real) \<and> (of_int p :: real) \<le> 100"
    "0 \<le> (of_int x :: real) \<and> (of_int x :: real) \<le> 100"
    using assms by simp_all
  then show ?thesis by (simp add: weighted_sum_def)
qed

lemma report_weighted_sum_range:
  "0 \<le> scores_weighted_sum (analyze_website_gaps h n bt) \<and>
   scores_weighted_sum (analyze_website_gaps h n bt) \<le> 100"
  using weighted_sum_range[OF mobile_score_range[of h] design_score_range[of h]
      seo_score_range[of h n] performance_score_range[of h] missing_score_range[of h bt]]
  by (simp add: scores_weighted_sum_def analyze_website_gaps_def Let_def)

lemma overall_is_py_int:
  "overall_score (analyze_website_gaps h n bt) = py_int (scores_weighted_sum (analyze_website_gaps h n bt))"
  by (simp add: scores_weighted_sum_def analyze_website_gaps_def Let_def)

text \<open>
  Claim C1, as the code has it.  The overall score is the weighted sum of the five
  scores (weights 0.30, 0.20, 0.25, 0.15 and 0.10) truncated to an integer; the sum
  lies between 0 and 100 by itself, so that clamping changes nothing.
\<close>

theorem overall_score_truncated_sum:
  "overall_score (analyze_website_gaps html_content business_name business_type) =
     \<lfloor>spec_overall_score (analyze_website_gaps html_content business_name business_type)\<rfloor> \<and>
   spec_overall_score (analyze_website_gaps html_content business_name business_type) =
     scores_weighted_sum (analyze_website_gaps html_content business_name business_type) \<and>
   0 \<le> overall_score (analyze_website_gaps html_content business_name business_type) \<and>
   overall_score (analyze_website_gaps html_content business_name business_type) \<le> 100"
proof -
  let ?r = "analyze_website_gaps html_content business_name business_type"
  have rng: "0 \<le> scores_weighted_sum ?r \<and> scores_weighted_sum ?r \<le> 100"
    by (rule report_weighted_sum_range)
  then have sp: "spec_overall_score ?r = scores_weighted_sum ?r"
    by (simp add: spec_overall_score_def)
  have ov: "overall_score ?r = \<lfloor>scores_weighted_sum ?r\<rfloor>"
    using rng by (simp add: overall_is_py_int py_int_floor)
  have "0 \<le> \<lfloor>scores_weighted_sum ?r\<rfloor>" using rng by simp
  moreover have "\<lfloor>scores_weighted_sum ?r\<rfloor> \<le> 100" using rng by (simp add: floor_le_iff)
  ultimately show ?thesis using sp ov by simp
qed

text \<open>The theorem of claim C1 at the empty page.\<close>

theorem overall_score_truncated_sum_witness:
  "overall_score (analyze_website_gaps '''' ''Acme'' ''general'') = 25 \<and>
   \<lfloor>spec_overall_score (analyze_website_gaps '''' ''Acme'' ''general'')\<rfloor> = 25"
  using overall_score_truncated_sum [of "''''" "''Acme''" "''general''"]
  by (simp add: gaps_empty_general spec_overall_score_def scores_weighted_sum_def
      mobile_empty design_empty seo_empty performance_empty missing_empty_general
      weighted_sum_def)

text \<open>
  Claim C1 as it is stated fails: on the empty page the five scores are 10, 0, 20, 90 and
  40, their weighted sum is 25.5 and the overall score is 25.
\<close>

theorem overall_score_not_sum_counterexample:
  "overall_score (analyze_website_gaps '''' ''Acme'' ''general'') = 25 \<and>
   spec_overall_score (analyze_website_gaps '''' ''Acme'' ''general'') = 51 / 2 \<and>
   of_int (overall_score (analyze_website_gaps '''' ''Acme'' ''general''))
     \<noteq> spec_overall_score (analyze_website_gaps '''' ''Acme'' ''general'')"
  by (simp add: gaps_empty_general spec_overall_score_def scores_weighted_sum_def
      mobile_empty design_empty seo_empty performance_empty missing_empty_general
      weighted_sum_def)

section \<open>Gap analysis: the penalties of the issues\<close>

lemma accounted_start: "accounted table start"
  by (simp add: accounted_def start_def)

lemma accounted_penalize:
  "accounted table st \<Longrightarrow> penalty_of table msg = n \<Longrightarrow> accounted table (penalize msg n st)"
  by (simp add: accounted_def penalize_def)

lemma accounted_penalize_if:
  "accounted table st \<Longrightarrow> penalty_of table msg = n \<Longrightarrow> accounted table (penalize_if b msg n st)"
  by (simp add: penalize_if_def accounted_penalize)

lemma accounted_scan_sections:
  "accounted table st \<Longrightarrow>
   list_all (\<lambda>entry. penalty_of table (label @ replace_underscore (fst entry)) = n) secs \<Longrightarrow>
   accounted table (scan_sections h label n secs st)"
proof (induction secs arbitrary: st)
  case Nil then show ?case by simp
next
  case (Cons a secs)
  obtain nm pat where a: "a = (nm, pat)" by (cases a)
  show ?case using Cons by (simp add: a accounted_penalize_if)
qed

lemma from_100I:
  "accounted table st \<Longrightarrow> score r = max 0 (cs_score st) \<Longrightarrow> issues r = cs_issues st \<Longrightarrow>
   from_100 table r"
  by (simp add: accounted_def from_100_def)

lemma mobile_penalty_values:
  "penalty_of mobile_penalties ''Missing viewport meta tag for mobile devices'' = 40"
  "penalty_of mobile_penalties ''No CSS media queries detected (likely not responsive)'' = 30"
  "penalty_of mobile_penalties ''No mobile-friendly CSS framework detected'' = 20"
  by (simp_all add: penalty_of_def mobile_penalties_def)

lemma seo_penalty_values:
  "penalty_of seo_penalties ''Missing or too-short title tag'' = 20"
  "penalty_of seo_penalties ''Title tag too long (>60 chars)'' = 5"
  "penalty_of seo_penalties ''Missing meta description'' = 20"
  "penalty_of seo_penalties ''No H1 heading found'' = 15"
  "penalty_of seo_penalties ''Multiple H1 headings (should be only one)'' = 5"
  "penalty_of seo_penalties ''No H2 headings found (poor content structure)'' = 10"
  "penalty_of seo_penalties ''No schema.org structured data found'' = 15"
  by code_simp+

lemma seo_penalty_images:
  "penalty_of seo_penalties (str_of_nat k @ '' images missing alt attributes'') = 15"
  by (simp add: penalty_of_def seo_penalties_def suffix_appendI)

lemma performance_penalty_values:
  "penalty_of performance_penalties (''Large HTML size ('' @ x @ ''KB)'') = 20"
  "penalty_of performance_penalties (''Moderate HTML size ('' @ x @ ''KB)'') = 10"
  "penalty_of performance_penalties (''Many external scripts ('' @ y @ '')'') = 15"
  "penalty_of performance_penalties (''Many external stylesheets ('' @ y @ '')'') = 10"
  "penalty_of performance_penalties ''No lazy loading detected for images'' = 10"
  "penalty_of performance_penalties ''HTML not minified (contains comments/excess whitespace)'' = 10"
  by (simp_all add: penalty_of_def performance_penalties_def)

lemma missing_penalty_universal:
  "list_all (\<lambda>entry. penalty_of missing_penalties (''Missing '' @ replace_underscore (fst entry)) = 15)
     universal_sections"
  by (simp add: universal_sections_def penalty_of_def missing_penalties_def replace_underscore_def)

lemma missing_penalty_specific:
  "list_all (\<lambda>entry. penalty_of missing_penalties
       (''Missing business-specific: '' @ replace_underscore (fst entry)) = 10) secs"
  by (simp add: list_all_iff penalty_of_def missing_penalties_def)

lemma example_penalty_values:
  "penalty_of seo_penalties ''4 images missing alt attributes'' = 15"
  "penalty_of performance_penalties ''Many external scripts (11)'' = 15"
  "penalty_of missing_penalties ''Missing contact form'' = 15"
  "penalty_of missing_penalties ''Missing testimonials'' = 15"
  "penalty_of missing_penalties ''Missing about'' = 15"
  "penalty_of missing_penalties ''Missing call to action'' = 15"
  "penalty_of missing_penalties ''Missing business-specific: menu'' = 10"
  "penalty_of missing_penalties ''Missing business-specific: reservation'' = 10"
  "penalty_of missing_penalties ''Missing business-specific: location map'' = 10"
  by code_simp+

lemma mobile_from_100: "from_100 mobile_penalties (check_mobile_responsiveness h)"
proof -
  define st where "st = penalize_if (\<not> (py_in ''bootstrap'' (lower h) \<or> py_in ''tailwind'' (lower h) \<or>
       py_in ''foundation'' (lower h) \<or> py_in ''mobile'' (lower h) \<or> py_in ''responsive'' (lower h)))
       ''No mobile-friendly CSS framework detected'' 20
     (penalize_if (\<not> re_found media_query_pattern h) ''No CSS media queries detected (likely not responsive)'' 30
     (penalize_if (\<not> re_found viewport_pattern h) ''Missing viewport meta tag for mobile devices'' 40 start))"
  have "accounted mobile_penalties st" unfolding st_def
    by (intro accounted_penalize_if accounted_start mobile_penalty_values)
  moreover have "score (check_mobile_responsiveness h) = max 0 (cs_score st)"
    and "issues (check_mobile_responsiveness h) = cs_issues st"
    by (simp_all add: check_mobile_responsiveness_def Let_def st_def)
  ultimately show ?thesis by (rule from_100I)
qed

lemma seo_from_100: "from_100 seo_penalties (check_seo_basics h n)"
proof -
  define tm where "tm = re_search title_pattern h"
  define tt where "tt = (case tm of None \<Rightarrow> [] | Some m \<Rightarrow> group_str m 1)"
  define st1 where "st1 = (if \<not> (tm \<noteq> None) \<or> length (strip tt) < 10
                 then penalize ''Missing or too-short title tag'' 20 start
                 else if 60 < length tt
                 then penalize ''Title tag too long (>60 chars)'' 5 start
                 else start)"
  define h1s where "h1s = length (findall0 h1_pattern h)"
  define st2 where "st2 = penalize_if (\<not> re_found meta_description_pattern h) ''Missing meta description'' 20 st1"
  define st3 where "st3 = (if h1s = 0 then penalize ''No H1 heading found'' 15 st2
                 else if 1 < h1s then penalize ''Multiple H1 headings (should be only one)'' 5 st2
                 else st2)"
  define na where "na = length (findall0 img_without_alt_pattern h)"
  define st6 where "st6 = penalize_if (\<not> re_found schema_pattern h) ''No schema.org structured data found'' 15
     (penalize_if (3 < na) (str_of_nat na @ '' images missing alt attributes'') 15
     (penalize_if (\<not> re_found h2_pattern h) ''No H2 headings found (poor content structure)'' 10 st3))"
  have a1: "accounted seo_penalties st1" unfolding st1_def
    by (simp add: accounted_start accounted_penalize seo_penalty_values)
  have a2: "accounted seo_penalties st2" unfolding st2_def using a1
    by (simp add: accounted_penalize_if seo_penalty_values)
  have a3: "accounted seo_penalties st3" unfolding st3_def using a2
    by (simp add: accounted_penalize seo_penalty_values)
  have a6: "accounted seo_penalties st6" unfolding st6_def using a3
    by (intro accounted_penalize_if seo_penalty_values seo_penalty_images)
  moreover have "score (check_seo_basics h n) = max 0 (cs_score st6)"
    and "issues (check_seo_basics h n) = cs_issues st6"
    unfolding check_seo_basics_def Let_def st6_def st3_def st2_def st1_def h1s_def na_def tt_def tm_def
    by simp_all
  ultimately show ?thesis by (rule from_100I)
qed

lemma performance_from_100: "from_100 performance_penalties (check_performance_indicators h)"
proof -
  define kb where "kb = real (length h) / 1024"
  define st1 where "st1 = (if 500 < kb
                 then penalize (''Large HTML size ('' @ fmt_0f kb @ ''KB)'') 20 start
                 else if 200 < kb
                 then penalize (''Moderate HTML size ('' @ fmt_0f kb @ ''KB)'') 10 start
                 else start)"
  define sc where "sc = length (findall0 script_pattern h)"
  define sh where "sh = length (findall0 stylesheet_pattern h)"
  define st5 where "st5 = penalize_if (\<not> (\<not> py_in ''<!--'' (take 1000 h) \<and> \<not> py_in ''\<newline>\<newline>'' (take 1000 h)))
                  ''HTML not minified (contains comments/excess whitespace)'' 10
     (penalize_if (\<not> re_found lazy_pattern h) ''No lazy loading detected for images'' 10
     (penalize_if (5 < sh) (''Many external stylesheets ('' @ str_of_nat sh @ '')'') 10
     (penalize_if (10 < sc) (''Many external scripts ('' @ str_of_nat sc @ '')'') 15 st1)))"
  have large: "accounted performance_penalties
      (penalize (''Large HTML size ('' @ fmt_0f kb @ ''KB)'') 20 start)"
    by (intro accounted_penalize accounted_start performance_penalty_values)
  have moderate: "accounted performance_penalties
      (penalize (''Moderate HTML size ('' @ fmt_0f kb @ ''KB)'') 10 start)"
    by (intro accounted_penalize accounted_start performance_penalty_values)
  have a1: "accounted performance_penalties st1" unfolding st1_def
    by (cases "500 < kb"; cases "200 < kb")
       (simp_all only: if_P if_not_P if_True if_False large moderate accounted_start)
  have a5: "accounted performance_penalties st5" unfolding st5_def using a1
    by (intro accounted_penalize_if performance_penalty_values)
  moreover have "score (check_performance_indicators h) = max 0 (cs_score st5)"
    and "issues (check_performance_indicators h) = cs_issues st5"
    unfolding check_performance_indicators_def Let_def st5_def st1_def sc_def sh_def kb_def
    by simp_all
  ultimately show ?thesis by (rule from_100I)
qed

lemma missing_from_100: "from_100 missing_penalties (check_missing_sections h bt)"
proof -
  define st1 where "st1 = scan_sections h ''Missing '' 15 universal_sections start"
  define st2 where "st2 = (case map_of business_specific bt of None \<Rightarrow> st1
     | Some sections \<Rightarrow> scan_sections h ''Missing business-specific: '' 10 sections st1)"
  have a1: "accounted missing_penalties st1" unfolding st1_def
    by (intro accounted_scan_sections accounted_start missing_penalty_universal)
  have specific: "accounted missing_penalties
      (scan_sections h ''Missing business-specific: '' 10 secs st1)" for secs
    by (intro accounted_scan_sections a1 missing_penalty_specific)
  have a2: "accounted missing_penalties st2" unfolding st2_def
    by (cases "map_of business_specific bt") (simp_all only: option.case a1 specific)
  moreover have "score (check_missing_sections h bt) = max 0 (cs_score st2)"
    and "issues (check_missing_sections h bt) = cs_issues st2"
    unfolding check_missing_sections_def Let_def st2_def st1_def by simp_all
  ultimately show ?thesis by (rule from_100I)
qed

lemma scan_outdated_count:
  "fst (scan_outdated h fs (k, iss)) =
     k + int (length (filter (\<lambda>entry. feature_found h (snd entry)) fs))"
proof (induction fs arbitrary: k iss)
  case Nil then show ?case by simp
next
  case (Cons a fs)
  obtain nm f where a: "a = (nm, f)" by (cases a)
  show ?case by (simp add: a Cons)
qed

lemma design_score_counts:
  "score (check_design_modernity h) = max 0 (min 100 (10 * count_modern h - 15 * count_outdated h)) \<and>
   modern_indicators (check_design_modernity h) = count_modern h \<and>
   outdated_indicators (check_design_modernity h) = count_outdated h"
proof -
  obtain k iss where sc: "scan_outdated h (outdated_features h) (0, cs_issues start) = (k, iss)"
    by (cases "scan_outdated h (outdated_features h) (0, cs_issues start)")
  have "k = count_outdated h"
    using scan_outdated_count[of h "outdated_features h" 0 "cs_issues start"] sc
    by (simp add: count_outdated_def)
  then show ?thesis
    by (simp add: check_design_modernity_def Let_def sc mult.commute)
qed

text \<open>
  Claim C5, as the code has it.  The mobile, SEO, performance and missing-sections checks
  start from 100 and subtract the fixed penalty of each issue they report, floored at 0:
  the score is 100 minus the sum, over the issues of the report, of the penalty the table
  of the check gives for the issue.  The design check does not: its score is ten times
  the number of modern features found in the page minus fifteen times the number of
  outdated features found, clamped to the interval from 0 to 100.
\<close>

theorem checks_subtract_penalties:
  "from_100 mobile_penalties (check_mobile_responsiveness html_content) \<and>
   from_100 seo_penalties (check_seo_basics html_content business_name) \<and>
   from_100 performance_penalties (check_performance_indicators html_content) \<and>
   from_100 missing_penalties (check_missing_sections html_content business_type) \<and>
   score (check_design_modernity html_content) =
     max 0 (min 100 (10 * count_modern html_content - 15 * count_outdated html_content))"
  using mobile_from_100 seo_from_100 performance_from_100 missing_from_100 design_score_counts
  by blast

text \<open>The theorem of claim C5 on five pages: the empty page for the mobile check and the
  missing sections of a restaurant, a page with four images without alternative text for
  the SEO check, a page with eleven external scripts for the performance check, and a
  page with three modern features and one outdated feature for the design check.\<close>

theorem checks_subtract_penalties_witness:
  "score (check_mobile_responsiveness '''') = 10 \<and>
   sum_list (map (penalty_of mobile_penalties) (issues (check_mobile_responsiveness ''''))) = 90 \<and>
   score (check_seo_basics ''<img><img><img><img>'' '''') = 5 \<and>
   sum_list (map (penalty_of seo_penalties)
     (issues (check_seo_basics ''<img><img><img><img>'' ''''))) = 95 \<and>
   score (check_performance_indicators eleven_scripts) = 75 \<and>
   sum_list (map (penalty_of performance_penalties)
     (issues (check_performance_indicators eleven_scripts))) = 25 \<and>
   score (check_missing_sections '''' ''restaurant'') = 10 \<and>
   sum_list (map (penalty_of missing_penalties)
     (issues (check_missing_sections '''' ''restaurant''))) = 90 \<and>
   score (check_design_modernity ''display:flex display:grid transition:<font>'') = 15 \<and>
   count_modern ''display:flex display:grid transition:<font>'' = 3 \<and>
   count_outdated ''display:flex display:grid transition:<font>'' = 1"
proof -
  have counts: "count_modern ''display:flex display:grid transition:<font>'' = 3"
    "count_outdated ''display:flex display:grid transition:<font>'' = 1"
    using design_score_counts[of "''display:flex display:grid transition:<font>''"]
    by (simp_all add: design_font_tag)
  show ?thesis
    using checks_subtract_penalties [of "''''" "''''" "''restaurant''"]
      checks_subtract_penalties [of "''<img><img><img><img>''" "''''" "''restaurant''"]
      checks_subtract_penalties [of eleven_scripts "''''" "''restaurant''"]
      checks_subtract_penalties [of "''display:flex display:grid transition:<font>''" "''''" "''restaurant''"]
    by (simp add: counts mobile_empty seo_four_images performance_eleven_scripts
        missing_empty_restaurant design_font_tag mobile_penalty_values seo_penalty_values
        performance_penalty_values example_penalty_values)
qed

text \<open>
  Claim C5 as it is stated fails for the design check: a page with three modern features
  and nothing outdated has no issue at all, and its score is 30, not 100.
\<close>

theorem design_not_from_100_counterexample:
  "issues (check_design_modernity ''display:flex display:grid transition:'') = [] \<and>
   score (check_design_modernity ''display:flex display:grid transition:'') = 30 \<and>
   \<not> from_100 design_penalties (check_design_modernity ''display:flex display:grid transition:'')"
  by (simp add: design_three_modern from_100_def)

section \<open>Classification: the fall-back and the confidence curve\<close>

lemma classify_empty: "classify_business '''' '''' '''' =
  \<lparr>primary_type = ''general'', confidence = 0, secondary_tags = {}, matched_keywords = [],
   warning = Some ''Could not classify business type''\<rparr>"
  by code_simp

lemma zero_empty: "all_scores_zero '''' '''' ''''" by code_simp

lemma classify_plumber: "classify_business ''plumber'' '''' '''' =
  \<lparr>primary_type = ''home_services'', confidence = 1 / 2, secondary_tags = {},
   matched_keywords = [''plumber''], warning = None\<rparr>"
  by code_simp

lemma score_plumber: "winning_score ''plumber'' '''' '''' = 10" by code_simp

lemma classify_pizza: "classify_business ''pizza'' '''' '''' =
  \<lparr>primary_type = ''restaurant'', confidence = 3 / 20, secondary_tags = {''italian''},
   matched_keywords = [''pizza''], warning = None\<rparr>"
  by code_simp

lemma score_pizza: "winning_score ''pizza'' '''' '''' = 3" by code_simp

lemma classify_cafe_menu: "classify_business ''cafe menu'' '''' '''' =
  \<lparr>primary_type = ''restaurant'', confidence = 7 / 10, secondary_tags = {''cafe''},
   matched_keywords = [''cafe'', ''menu''], warning = None\<rparr>"
  by code_simp

lemma score_cafe_menu: "winning_score ''cafe menu'' '''' '''' = 20" by code_simp

lemma classify_cafe_food_menu: "classify_business ''cafe food menu'' '''' '''' =
  \<lparr>primary_type = ''restaurant'', confidence = 7 / 10, secondary_tags = {''cafe''},
   matched_keywords = [''cafe'', ''food'', ''menu''], warning = None\<rparr>"
  by code_simp

lemma score_cafe_food_menu: "winning_score ''cafe food menu'' '''' '''' = 30" by code_simp

lemma category_keys: "map fst (category_scores st wt) = taxonomy"
  by (simp add: category_scores_def CATEGORY_KEYWORDS_def taxonomy_def)

lemma category_scores_nonempty: "category_scores st wt \<noteq> []"
  using category_keys[of st wt] by (auto simp: taxonomy_def)

lemma distinct_taxonomy: "distinct taxonomy"
  by (simp add: taxonomy_def)

lemma max_key_in: "xs \<noteq> [] \<Longrightarrow> max_key xs \<in> set xs"
proof (induction xs rule: max_key.induct)
  case 1 then show ?case by simp
next
  case (2 k v) then show ?case by simp
next
  case (3 k v a rest)
  then show ?case by (auto split: prod.splits)
qed

lemma max_key_value: "xs \<noteq> [] \<Longrightarrow> snd (max_key xs) = max_value xs"
proof (induction xs rule: max_key.induct)
  case 1 then show ?case by simp
next
  case (2 k v) then show ?case by simp
next
  case (3 k v a rest)
  then show ?case by (auto split: prod.splits simp: max_def)
qed

lemma lookup_max_key:
  assumes "xs \<noteq> []" "distinct (map fst xs)"
  shows "map_of xs (fst (max_key xs)) = Some (max_value xs)"
proof -
  have "(fst (max_key xs), snd (max_key xs)) \<in> set xs" using max_key_in[OF assms(1)] by simp
  then have "map_of xs (fst (max_key xs)) = Some (snd (max_key xs))"
    using assms(2) by (rule map_of_is_SomeI[rotated])
  then show ?thesis by (simp add: max_key_value[OF assms(1)])
qed

lemma match_keywords_mono: "0 \<le> w \<Longrightarrow> fst acc \<le> fst (match_keywords st w ks acc)"
proof (induction ks arbitrary: acc)
  case Nil then show ?case by simp
next
  case (Cons k ks)
  obtain sc m where acc: "acc = (sc, m)" by (cases acc)
  have "fst (if py_in k st then (sc + w, m @ [k]) else (sc, m))
        \<le> fst (match_keywords st w ks (if py_in k st then (sc + w, m @ [k]) else (sc, m)))"
    using Cons by blast
  then show ?case using Cons.prems by (simp add: acc split: if_splits)
qed

lemma match_indicators_mono: "sc \<le> match_indicators st ks sc"
proof (induction ks arbitrary: sc)
  case Nil then show ?case by simp
next
  case (Cons k ks)
  have "(if py_in k st then sc + 5 else sc) \<le> match_indicators st ks (if py_in k st then sc + 5 else sc)"
    using Cons by blast
  then show ?case by (simp split: if_splits)
qed

lemma score_category_nonneg: "0 \<le> fst (score_category st wt entry)"
proof -
  obtain s1 m1 where a: "match_keywords st 10 (primary (snd entry)) (0, []) = (s1, m1)"
    by (cases "match_keywords st 10 (primary (snd entry)) (0, [])")
  obtain s2 m2 where b: "match_keywords st 3 (secondary (snd entry)) (s1, m1) = (s2, m2)"
    by (cases "match_keywords st 3 (secondary (snd entry)) (s1, m1)")
  have 1: "0 \<le> s1" using match_keywords_mono[of 10 "(0, [])" st "primary (snd entry)"] a by simp
  have 2: "s1 \<le> s2" using match_keywords_mono[of 3 "(s1, m1)" st "secondary (snd entry)"] b by simp
  have 3: "s2 \<le> match_indicators st l s2" for l by (rule match_indicators_mono)
  show ?thesis using 1 2 3[of "case map_of CONFIDENCE_INDICATORS (fst entry) of None \<Rightarrow> [] | Some l \<Rightarrow> l"]
    by (simp add: score_category_def a b Let_def)
qed

lemma max_value_nonneg: "list_all (\<lambda>e. 0 \<le> snd e) xs \<Longrightarrow> 0 \<le> max_value xs"
  by (induction xs rule: max_value.induct) auto

lemma max_value_zero: "list_all (\<lambda>e. snd e = 0) xs \<Longrightarrow> max_value xs = 0"
  by (induction xs rule: max_value.induct) auto

lemma winning_score_nonneg: "0 \<le> winning_score c t n"
  unfolding winning_score_def
  by (rule max_value_nonneg) (simp add: category_scores_def list_all_iff score_category_nonneg)

lemma round_half_even_of_int: "round_half_even (of_int k) = k"
  by (simp add: round_half_even_def)

lemma py_round_hundredths: "py_round (of_int k / 100) 2 = of_int k / 100"
  by (simp add: py_round_def round_half_even_of_int)

lemma confidence_hundredths: "\<exists>k. confidence_of s = of_int k / 100"
proof -
  consider "55 \<le> s" | "30 \<le> s" "s < 55" | "20 \<le> s" "s < 30" | "10 \<le> s" "s < 20" | "s < 10"
    by linarith
  then show ?thesis
  proof cases
    case 1
    then have "confidence_of s = of_int 95 / 100" by (simp add: confidence_of_def)
    then show ?thesis by blast
  next
    case 2
    then have "confidence_of s = of_int (s + 40) / 100" by (simp add: confidence_of_def field_simps)
    then show ?thesis by blast
  next
    case 3
    then have "confidence_of s = of_int (2 * s + 30) / 100" by (simp add: confidence_of_def field_simps)
    then show ?thesis by blast
  next
    case 4
    then have "confidence_of s = of_int (2 * s + 30) / 100" by (simp add: confidence_of_def field_simps)
    then show ?thesis by blast
  next
    case 5
    then have "confidence_of s = of_int (5 * s) / 100" by (simp add: confidence_of_def field_simps)
    then show ?thesis by blast
  qed
qed

lemma py_round_confidence: "py_round (confidence_of s) 2 = confidence_of s"
proof -
  obtain k where "confidence_of s = of_int k / 100" using confidence_hundredths[of s] by blast
  then show ?thesis by (simp only: py_round_hundredths)
qed

lemma classify_confidence: "confidence (classify_business c t n) = confidence_of (winning_score c t n)"
proof (cases "winning_score c t n = 0")
  case True
  then show ?thesis
    by (simp add: classify_business_def winning_score_def Let_def confidence_of_def)
next
  case False
  let ?sc = "category_scores (search_text_of c t n) t"
  have ne: "?sc \<noteq> []" by (rule category_scores_nonempty)
  have "map_of ?sc (fst (max_key ?sc)) = Some (max_value ?sc)"
    by (rule lookup_max_key[OF ne]) (simp add: category_keys distinct_taxonomy)
  then show ?thesis using False ne
    by (simp add: classify_business_def winning_score_def Let_def py_round_confidence)
qed

lemma classify_primary_type: "primary_type (classify_business c t n) \<in> set taxonomy \<union> {''general''}"
proof -
  let ?sc = "category_scores (search_text_of c t n) t"
  have ne: "?sc \<noteq> []" by (rule category_scores_nonempty)
  have "fst (max_key ?sc) \<in> fst ` set ?sc" using max_key_in[OF ne] by (rule imageI)
  then have "fst (max_key ?sc) \<in> set taxonomy" using category_keys[of "search_text_of c t n" t]
    by (metis set_map)
  then show ?thesis by (simp add: classify_business_def Let_def)
qed

text \<open>
  Claim C2.  For every category, website text and business name, the confidence is
  between 0 and 1 and the primary type is one of the twelve entries of the taxonomy or
  \<open>general\<close>.  The confidence follows the curve on the winning score: from 30 on it is
  0.70 plus a hundredth for each point above 30, capped at 0.95; from 20 to 29 it is
  between 0.70 and 0.88; from 10 to 19 between 0.50 and 0.68; below 10 it is a twentieth
  of the score, below 0.5.
\<close>

theorem classify_confidence_curve:
  "0 \<le> confidence (classify_business category website_text business_name) \<and>
   confidence (classify_business category website_text business_name) \<le> 1 \<and>
   primary_type (classify_business category website_text business_name) \<in> set taxonomy \<union> {''general''} \<and>
   0 \<le> winning_score category website_text business_name \<and>
   (30 \<le> winning_score category website_text business_name \<longrightarrow>
      confidence (classify_business category website_text business_name) =
        min 0.95 (0.70 + of_int (winning_score category website_text business_name - 30) * 0.01) \<and>
      0.70 \<le> confidence (classify_business category website_text business_name) \<and>
      confidence (classify_business category website_text business_name) \<le> 0.95) \<and>
   (20 \<le> winning_score category website_text business_name \<and>
    winning_score category website_text business_name \<le> 29 \<longrightarrow>
      confidence (classify_business category website_text business_name) =
        0.70 + of_int (winning_score category website_text business_name - 20) * 0.02 \<and>
      0.70 \<le> confidence (classify_business category website_text business_name) \<and>
      confidence (classify_business category website_text business_name) \<le> 0.88) \<and>
   (10 \<le> winning_score category website_text business_name \<and>
    winning_score category website_text business_name \<le> 19 \<longrightarrow>
      confidence (classify_business category website_text business_name) =
        0.50 + of_int (winning_score category website_text business_name - 10) * 0.02 \<and>
      0.50 \<le> confidence (classify_business category website_text business_name) \<and>
      confidence (classify_business category website_text business_name) \<le> 0.68) \<and>
   (winning_score category website_text business_name < 10 \<longrightarrow>
      confidence (classify_business category website_text business_name) =
        of_int (winning_score category website_text business_name) * 0.05 \<and>
      0 \<le> confidence (classify_business category website_text business_name) \<and>
      confidence (classify_business category website_text business_name) < 0.5)"
proof -
  define s where "s = winning_score category website_text business_name"
  have c: "confidence (classify_business category website_text business_name) = confidence_of s"
    unfolding s_def by (rule classify_confidence)
  have s0: "0 \<le> s" unfolding s_def by (rule winning_score_nonneg)
  define x :: real where "x = of_int s"
  have x0: "0 \<le> x" using s0 by (simp add: x_def)
  have a: "30 \<le> s \<Longrightarrow> confidence_of s = min 0.95 (0.70 + of_int (s - 30) * 0.01) \<and>
      0.70 \<le> confidence_of s \<and> confidence_of s \<le> 0.95"
  proof -
    assume h: "30 \<le> s"
    then have hx: "30 \<le> x" by (simp add: x_def)
    have eq: "confidence_of s = min 0.95 (0.70 + (x - 30) * 0.01)"
      using h by (simp add: confidence_of_def x_def)
    have "0.70 \<le> min 0.95 (0.70 + (x - 30) * 0.01) \<and> min 0.95 (0.70 + (x - 30) * 0.01) \<le> 0.95"
      using hx by (simp add: min_def field_simps)
    then show ?thesis using eq by (simp add: x_def)
  qed
  have b: "20 \<le> s \<Longrightarrow> s \<le> 29 \<Longrightarrow> confidence_of s = 0.70 + of_int (s - 20) * 0.02 \<and>
      0.70 \<le> confidence_of s \<and> confidence_of s \<le> 0.88"
  proof -
    assume h: "20 \<le> s" "s \<le> 29"
    then have hx: "20 \<le> x" "x \<le> 29" by (simp_all add: x_def)
    have eq: "confidence_of s = 0.70 + (x - 20) * 0.02"
      using h by (simp add: confidence_of_def x_def)
    have "0.70 \<le> 0.70 + (x - 20) * 0.02 \<and> 0.70 + (x - 20) * 0.02 \<le> 0.88"
      using hx by (simp add: field_simps)
    then show ?thesis using eq by (simp add: x_def)
  qed
  have d: "10 \<le> s \<Longrightarrow> s \<le> 19 \<Longrightarrow> confidence_of s = 0.50 + of_int (s - 10) * 0.02 \<and>
      0.50 \<le> confidence_of s \<and> confidence_of s \<le> 0.68"
  proof -
    assume h: "10 \<le> s" "s \<le> 19"
    then have hx: "10 \<le> x" "x \<le> 19" by (simp_all add: x_def)
    have eq: "confidence_of s = 0.50 + (x - 10) * 0.02"
      using h by (simp add: confidence_of_def x_def)
    have "0.50 \<le> 0.50 + (x - 10) * 0.02 \<and> 0.50 + (x - 10) * 0.02 \<le> 0.68"
      using hx by (simp add: field_simps)
    then show ?thesis using eq by (simp add: x_def)
  qed
  have e: "s < 10 \<Longrightarrow> confidence_of s = of_int s * 0.05 \<and> 0 \<le> confidence_of s \<and> confidence_of s < 0.5"
  proof -
    assume h: "s < 10"
    then have hx: "x < 10" by (simp add: x_def)
    have eq: "confidence_of s = x * 0.05"
      using h by (simp add: confidence_of_def x_def)
    have "0 \<le> x * 0.05 \<and> x * 0.05 < 0.5"
      using hx x0 by (simp add: field_simps)
    then show ?thesis using eq by (simp add: x_def)
  qed
  have rng: "0 \<le> confidence_of s \<and> confidence_of s \<le> 1"
  proof -
    consider "30 \<le> s" | "20 \<le> s" "s \<le> 29" | "10 \<le> s" "s \<le> 19" | "s < 10" by linarith
    then show ?thesis
    proof cases
      case 1 then show ?thesis using a[OF 1] by simp
    next
      case 2 then show ?thesis using b[OF 2] by simp
    next
      case 3 then show ?thesis using d[OF 3] by simp
    next
      case 4 then show ?thesis using e[OF 4] by simp
    qed
  qed
  show ?thesis
    unfolding c s_def[symmetric]
    using rng s0 a b d e classify_primary_type[of category website_text business_name]
    by blast
qed

text \<open>The theorem of claim C2 on four categories, one for each piece of the curve: the
  winning scores are 3, 10, 20 and 30.\<close>

theorem classify_confidence_curve_witness:
  "winning_score ''pizza'' '''' '''' = 3 \<and>
   confidence (classify_business ''pizza'' '''' '''') = 3 / 20 \<and>
   winning_score ''plumber'' '''' '''' = 10 \<and>
   confidence (classify_business ''plumber'' '''' '''') = 1 / 2 \<and>
   primary_type (classify_business ''plumber'' '''' '''') = ''home_services'' \<and>
   winning_score ''cafe menu'' '''' '''' = 20 \<and>
   confidence (classify_business ''cafe menu'' '''' '''') = 7 / 10 \<and>
   winning_score ''cafe food menu'' '''' '''' = 30 \<and>
   confidence (classify_business ''cafe food menu'' '''' '''') = 7 / 10"
  using classify_confidence_curve [of "''pizza''" "''''" "''''"]
    classify_confidence_curve [of "''plumber''" "''''" "''''"]
    classify_confidence_curve [of "''cafe menu''" "''''" "''''"]
    classify_confidence_curve [of "''cafe food menu''" "''''" "''''"]
  by (simp add: score_pizza classify_pizza score_plumber classify_plumber
      score_cafe_menu classify_cafe_menu score_cafe_food_menu classify_cafe_food_menu)

text \<open>
  Claim C8.  When every category of the taxonomy scores zero, the result is the
  fall-back: primary type \<open>general\<close>, confidence 0, no secondary tag, no matched
  keyword, and the warning.  The function has no failing step: it is total.
\<close>

theorem classify_general_fallback:
  "all_scores_zero category website_text business_name \<Longrightarrow>
   classify_business category website_text business_name =
     \<lparr>primary_type = ''general'', confidence = 0, secondary_tags = {}, matched_keywords = [],
      warning = Some ''Could not classify business type''\<rparr>"
  by (simp add: classify_business_def Let_def all_scores_zero_def max_value_zero)

text \<open>The theorem of claim C8 for the empty category, name and text.\<close>

theorem classify_general_fallback_witness:
  "all_scores_zero '''' '''' '''' \<and>
   classify_business '''' '''' '''' =
     \<lparr>primary_type = ''general'', confidence = 0, secondary_tags = {}, matched_keywords = [],
      warning = Some ''Could not classify business type''\<rparr>"
  using classify_general_fallback [OF zero_empty] zero_empty by simp

section \<open>Content extraction: evaluation on small pages\<close>

lemma colors_empty: "extract_colors_from_text '''' = Inr []" by code_simp

lemma logos_empty: "extract_logo_urls resolve '''' base_url = Inr []" by code_simp

lemma text_empty: "extract_text_content '''' =
  \<lparr>full_text = [], about = [], services = [], contact_text = []\<rparr>" by code_simp

lemma contact_empty: "extract_contact_info '''' business_phone =
  \<lparr>phone = business_phone, email = None, address = None\<rparr>" by code_simp

lemma images_empty: "extract_images resolve '''' base_url 15 = Inr []" by code_simp

lemma extraction_empty:
  "extract_business_content resolve '''' base_url business_phone =
     Inr \<lparr>colors = [], logos = [],
          text_sections = \<lparr>full_text = [], about = [], services = [], contact_text = []\<rparr>,
          contact_info = \<lparr>phone = business_phone, email = None, address = None\<rparr>,
          images = [],
          meta = \<lparr>total_colors_found = 0, total_images_found = 0, has_logo = False,
                   has_about_section = False, has_services_section = False,
                   has_contact_info = (\<not> falsy business_phone)\<rparr>\<rparr>"
  by (simp add: extract_business_content_def build_result_def and_then_def colors_empty
      logos_empty text_empty contact_empty images_empty falsy_def)

lemma images_twice: \<open>extract_images keep_reference ''<img src="a"><img src="a">'' '''' 15 =
  Inr [\<lparr>url = ''a'', alt = '''', img_type = ''general''\<rparr>,
       \<lparr>url = ''a'', alt = '''', img_type = ''general''\<rparr>]\<close>
  by code_simp

lemma content_twice: \<open>images_of (extract_business_content keep_reference
     ''<img src="a"><img src="a">'' '''' None) =
  Some [\<lparr>url = ''a'', alt = '''', img_type = ''general''\<rparr>,
        \<lparr>url = ''a'', alt = '''', img_type = ''general''\<rparr>]\<close>
  by code_simp

lemma matches_bracket: \<open>img_matches ''<img src="//[">'' = [(''//['', '''')]\<close>
  by code_simp

lemma content_bracket: \<open>extract_business_content reject_reference
     ''<img src="//[">'' ''http://example.com'' None = Inl ValueError\<close>
  by code_simp

lemma phone_known: "extract_contact_info ''5551234'' (Some ''01234 567890'') =
  \<lparr>phone = Some ''01234 567890'', email = None, address = None\<rparr>"
  by code_simp

lemma phone_found: "extract_contact_info ''5551234'' None =
  \<lparr>phone = Some ''5551234'', email = None, address = None\<rparr>"
  by code_simp

lemma first_match: "first_phone_match ''5551234'' = Some ''5551234''"
  by code_simp

section \<open>Content extraction: colours, phone number and images\<close>

lemma counter_keys: "set (map fst (counter xs)) = set xs"
  by (simp add: counter_def comp_def)

lemma most_common_keys: "set (map fst (most_common n c)) \<subseteq> set (map fst c)"
proof -
  have "set (take n (sort_key (\<lambda>(x, k). - int k) c)) \<subseteq> set c"
    using set_take_subset[of n "sort_key (\<lambda>(x, k). - int k) c"] by simp
  then show ?thesis unfolding most_common_def by auto
qed

lemma most_common_length: "length (most_common n c) \<le> n"
  by (simp add: most_common_def)

lemma extract_colors_kept:
  assumes "extract_colors_from_text h = Inr found"
  shows "length found \<le> 8 \<and> list_all keep_color found"
proof -
  from assms obtain cols where c: "collect_colors h = Inr cols"
    and f: "found = map fst (most_common 8 (counter (filter keep_color (map fst (counter cols)))))"
    by (auto simp: extract_colors_from_text_def and_then_def Let_def split: sum.splits)
  let ?f = "filter keep_color (map fst (counter cols))"
  have "set found \<subseteq> set (map fst (counter ?f))"
    unfolding f by (rule most_common_keys)
  also have "\<dots> = set ?f" by (rule counter_keys)
  finally have "\<forall>c \<in> set found. keep_color c" by auto
  moreover have "length found \<le> 8"
    unfolding f by (simp add: most_common_length)
  ultimately show ?thesis by (simp add: list_all_iff)
qed

lemma keep_color_not_default:
  "keep_color c \<Longrightarrow> c \<notin> set [''#FFFFFF'', ''#000000'', ''#FFF'', ''#000'']"
  unfolding keep_color_def by (auto split: if_splits)

text \<open>
  Claim C3 asks for at most 8 colours, none of them pure white or black, none near white
  or near black, and each a hex code of the form \<open>#RRGGBB\<close>.  The bound and the filter
  hold of every list the function returns (lemmas \<open>extract_colors_kept\<close> and
  \<open>keep_color_not_default\<close>), the form does not: the pattern for style properties takes
  three to six hex digits and a text of four or five digits is passed on as it is.  On
  the page \<open>color:#abcd\<close> the function returns the one value \<open>#ABCD\<close>.
\<close>

theorem extract_colors_malformed:
  "extract_colors_from_text ''color:#abcd'' = Inr [''#ABCD''] \<and>
   \<not> list_all well_formed_hex (projr (extract_colors_from_text ''color:#abcd''))"
proof -
  have found: "extract_colors_from_text ''color:#abcd'' = Inr [''#ABCD'']"
    by code_simp
  show ?thesis
    unfolding found by (simp add: well_formed_hex_def)
qed

lemma phone_loop_known: "\<not> falsy ph \<Longrightarrow> phone_loop ps h ph = ph"
  by (induction ps) (simp_all add: Let_def)

lemma phone_loop_unknown:
  "falsy ph \<Longrightarrow> phone_loop ps h ph =
     (case find (\<lambda>p. findall0 p h \<noteq> []) ps of None \<Rightarrow> ph | Some p \<Rightarrow> Some (hd (findall0 p h)))"
  by (induction ps) (simp_all add: Let_def)

text \<open>
  Claim C6, as the code has it.  A known business phone number that is not empty is the
  phone field, whatever the page holds; only without one is the field the first match of
  the first phone pattern, in the order of the list, that matches (and the number passed
  in when no pattern matches).
\<close>

theorem known_phone_first:
  "(\<not> falsy business_phone \<longrightarrow>
      phone (extract_contact_info html_content business_phone) = business_phone) \<and>
   (falsy business_phone \<longrightarrow>
      phone (extract_contact_info html_content business_phone) = spec_phone html_content business_phone)"
proof -
  have "falsy business_phone \<Longrightarrow>
      phone_loop phone_patterns html_content business_phone = spec_phone html_content business_phone"
    by (simp add: phone_loop_unknown spec_phone_def first_phone_match_def split: option.split)
  then show ?thesis
    by (simp add: extract_contact_info_def Let_def phone_loop_known)
qed

text \<open>The theorem of claim C6 on a page with a phone number, with and without a known
  number.\<close>

theorem known_phone_first_witness:
  "\<not> falsy (Some ''01234 567890'') \<and>
   phone (extract_contact_info ''5551234'' (Some ''01234 567890'')) = Some ''01234 567890'' \<and>
   falsy None \<and>
   phone (extract_contact_info ''5551234'' None) = Some ''5551234'' \<and>
   spec_phone ''5551234'' None = Some ''5551234''"
  using known_phone_first [of "Some ''01234 567890''" "''5551234''"]
    known_phone_first [of None "''5551234''"]
  by (simp add: falsy_def phone_found)

text \<open>
  Claim C6 as it is stated fails: the page holds a number that the first pattern finds,
  and the field is the known number all the same.
\<close>

theorem known_phone_not_fallback_counterexample:
  "first_phone_match ''5551234'' = Some ''5551234'' \<and>
   spec_phone ''5551234'' (Some ''01234 567890'') = Some ''5551234'' \<and>
   phone (extract_contact_info ''5551234'' (Some ''01234 567890'')) = Some ''01234 567890''"
  by (simp add: first_match spec_phone_def phone_known)

lemma from_match_Cons: "from_match r b ms img \<Longrightarrow> from_match r b (m # ms) img"
  by (simp add: from_match_def)

lemma image_loop_result:
  "image_loop r b ms = Inr imgs \<Longrightarrow> length imgs \<le> length ms \<and> list_all (from_match r b ms) imgs"
proof (induction r b ms arbitrary: imgs rule: image_loop.induct)
  case (1 r b) then show ?case by simp
next
  case (2 r b src a rest)
  show ?case
  proof (cases "any_in skip_words (lower src)")
    case True
    then have "image_loop r b rest = Inr imgs" using 2(3) by simp
    then have "length imgs \<le> length rest \<and> list_all (from_match r b rest) imgs"
      using 2(1) True by blast
    then show ?thesis by (auto simp: list_all_iff from_match_Cons)
  next
    case False
    from 2(3) False obtain u tl_imgs where u: "urljoin r b src = Inr u"
      and t: "image_loop r b rest = Inr tl_imgs"
      and i: "imgs = \<lparr>url = u, alt = a, img_type = image_type src a\<rparr> # tl_imgs"
      by (auto split: sum.splits)
    have ih: "length tl_imgs \<le> length rest \<and> list_all (from_match r b rest) tl_imgs"
      using 2(2)[OF False u t] .
    have hd: "from_match r b ((src, a) # rest) \<lparr>url = u, alt = a, img_type = image_type src a\<rparr>"
      using False u by (simp add: from_match_def)
    show ?thesis using ih hd by (auto simp: i list_all_iff from_match_Cons)
  qed
qed

lemma image_loop_returns:
  "(\<exists>imgs. image_loop r b ms = Inr imgs) \<longleftrightarrow> joins_ok r b ms"
proof (induction r b ms rule: image_loop.induct)
  case (1 r b) then show ?case by (simp add: joins_ok_def)
next
  case (2 r b src a rest)
  show ?case
  proof (cases "any_in skip_words (lower src)")
    case True
    then show ?thesis using 2(1) by (simp add: joins_ok_def)
  next
    case False
    show ?thesis
    proof (cases "urljoin r b src")
      case (Inl e)
      then show ?thesis using False by (simp add: joins_ok_def)
    next
      case (Inr u)
      then show ?thesis using False 2(2)[OF False Inr]
        by (auto simp: joins_ok_def split: sum.splits)
    qed
  qed
qed

lemma content_images:
  "extract_business_content r h b p = Inr content \<Longrightarrow> extract_images r h b 15 = Inr (images content)"
  by (auto simp: extract_business_content_def build_result_def and_then_def Let_def split: sum.splits)

lemma content_returns:
  "(\<exists>content. extract_business_content r h b p = Inr content) \<longleftrightarrow>
     \<not> isl (extract_colors_from_text h) \<and> \<not> isl (extract_logo_urls r h b) \<and>
     \<not> isl (extract_images r h b 15)"
  by (auto simp: extract_business_content_def and_then_def Let_def split: sum.splits)

lemma images_return: "\<not> isl (extract_images r h b 15) \<longleftrightarrow> joins_ok r b (take 15 (img_matches h))"
proof -
  have "\<not> isl (extract_images r h b 15) \<longleftrightarrow> (\<exists>imgs. extract_images r h b 15 = Inr imgs)"
    by (cases "extract_images r h b 15") simp_all
  then show ?thesis by (simp add: extract_images_def image_loop_returns)
qed

text \<open>
  Claim C7, as the code has it.  Whenever the extraction returns a result, its image list
  has at most 15 entries, and each entry comes from one of the first 15 matches of the
  image pattern whose source has none of the words icon, pixel, track, 1x1 and spacer,
  with the joined URL of that source; the list is not de-duplicated.  The extraction
  returns a result exactly when none of its steps raises: the colours are extracted (no
  colour component has more than 4300 digits), the logo URLs join, and the source of
  every one of the first 15 image matches that is not skipped joins.
\<close>

theorem images_capped_and_filtered:
  "(extract_business_content resolve html_content base_url business_phone = Inr content \<longrightarrow>
      length (images content) \<le> 15 \<and>
      list_all (from_match resolve base_url (take 15 (img_matches html_content))) (images content)) \<and>
   ((\<exists>content. extract_business_content resolve html_content base_url business_phone = Inr content) \<longleftrightarrow>
      \<not> isl (extract_colors_from_text html_content) \<and>
      \<not> isl (extract_logo_urls resolve html_content base_url) \<and>
      joins_ok resolve base_url (take 15 (img_matches html_content)))"
proof -
  have "length (images content) \<le> 15 \<and>
      list_all (from_match resolve base_url (take 15 (img_matches html_content))) (images content)"
    if r: "extract_business_content resolve html_content base_url business_phone = Inr content"
  proof -
    have "image_loop resolve base_url (take 15 (img_matches html_content)) = Inr (images content)"
      using content_images[OF r] by (simp add: extract_images_def)
    from image_loop_result[OF this] show ?thesis by simp
  qed
  then show ?thesis
    using content_returns[of resolve html_content base_url business_phone]
      images_return[of resolve html_content base_url]
    by blast
qed

text \<open>The theorem of claim C7 on a page with the same image twice, where the extraction
  returns, and on a page with an image whose source does not join, where it raises.\<close>

theorem images_capped_and_filtered_witness:
  \<open>images_of (extract_business_content keep_reference ''<img src="a"><img src="a">'' '''' None) =
     Some [\<lparr>url = ''a'', alt = '''', img_type = ''general''\<rparr>,
           \<lparr>url = ''a'', alt = '''', img_type = ''general''\<rparr>] \<and>
   joins_ok keep_reference '''' (take 15 (img_matches ''<img src="a"><img src="a">'')) \<and>
   extract_business_content reject_reference ''<img src="//[">'' ''http://example.com'' None
     = Inl ValueError \<and>
   \<not> joins_ok reject_reference ''http://example.com'' (take 15 (img_matches ''<img src="//[">''))\<close>
proof -
  have two: \<open>\<exists>content. extract_business_content keep_reference
      ''<img src="a"><img src="a">'' '''' None = Inr content\<close>
    using content_twice by (auto simp: images_of_def split: sum.splits)
  have \<open>\<not> (\<exists>content. extract_business_content reject_reference ''<img src="//[">''
      ''http://example.com'' None = Inr content)\<close>
    by (simp add: content_bracket)
  moreover have \<open>\<not> isl (extract_colors_from_text ''<img src="//[">'')\<close>
    and \<open>\<not> isl (extract_logo_urls reject_reference ''<img src="//[">'' ''http://example.com'')\<close>
    by code_simp+
  ultimately show ?thesis
    using two
      images_capped_and_filtered [of keep_reference \<open>''<img src="a"><img src="a">''\<close> "''''" None]
      images_capped_and_filtered [of reject_reference \<open>''<img src="//[">''\<close>
        "''http://example.com''" None]
    by (simp add: content_twice content_bracket)
qed

text \<open>
  Claim C7 as it is stated fails: a page with the same image element twice gives two
  entries with the same URL.
\<close>

theorem images_not_deduplicated_counterexample:
  \<open>images_of (extract_business_content keep_reference ''<img src="a"><img src="a">'' '''' None) =
     Some [\<lparr>url = ''a'', alt = '''', img_type = ''general''\<rparr>,
           \<lparr>url = ''a'', alt = '''', img_type = ''general''\<rparr>] \<and>
   \<not> distinct (map url [\<lparr>url = ''a'', alt = '''', img_type = ''general''\<rparr>,
                         \<lparr>url = ''a'', alt = '''', img_type = ''general''\<rparr>])\<close>
  by (simp add: content_twice)

section \<open>The empty page\<close>

text \<open>
  Claim C9, as the code has it.  On the empty page both functions return a result, with
  every field present.  The extraction result is the empty one: no colour, logo or image,
  empty text sections, every flag of the metadata false but \<open>has_contact_info\<close>; its
  phone field is the known phone number passed in, and \<open>has_contact_info\<close> is true
  exactly when that number is given and not empty.  The gap report is not empty: every
  check reports what it did not find, four of the five sub-reports are priority gaps, and
  the overall score is 25 (22 for the three business types with sections of their own).
\<close>

theorem empty_page_reports:
  "extract_business_content resolve '''' base_url business_phone =
     Inr \<lparr>colors = [], logos = [],
          text_sections = \<lparr>full_text = [], about = [], services = [], contact_text = []\<rparr>,
          contact_info = \<lparr>phone = business_phone, email = None, address = None\<rparr>,
          images = [],
          meta = \<lparr>total_colors_found = 0, total_images_found = 0, has_logo = False,
                   has_about_section = False, has_services_section = False,
                   has_contact_info = (\<not> falsy business_phone)\<rparr>\<rparr> \<and>
   mobile (analyze_website_gaps '''' business_name business_type) =
     \<lparr>score = 10,
      issues = [''Missing viewport meta tag for mobile devices'',
                ''No CSS media queries detected (likely not responsive)'',
                ''No mobile-friendly CSS framework detected''],
      severity = ''critical'', has_viewport = False, has_media_queries = False,
      has_mobile_framework = False\<rparr> \<and>
   design (analyze_website_gaps '''' business_name business_type) =
     \<lparr>score = 0,
      issues = [''Very few modern CSS features detected'',
                ''Design appears basic/minimal (not necessarily bad, but could be enhanced)''],
      severity = ''critical'', modern_indicators = 0, outdated_indicators = 0\<rparr> \<and>
   seo (analyze_website_gaps '''' business_name business_type) =
     \<lparr>score = 20,
      issues = [''Missing or too-short title tag'', ''Missing meta description'',
                ''No H1 heading found'', ''No H2 headings found (poor content structure)'',
                ''No schema.org structured data found''],
      severity = ''high'', has_title = False, has_meta_description = False, h1_count = 0,
      has_schema = False, images_without_alt = 0\<rparr> \<and>
   performance (analyze_website_gaps '''' business_name business_type) =
     \<lparr>score = 90,
      issues = [''No lazy loading detected for images''],
      severity = ''low'', page_size_kb = 0, script_count = 0, stylesheet_count = 0,
      has_lazy_loading = False, is_minified = True\<rparr> \<and>
   severity (missing_sections (analyze_website_gaps '''' business_name business_type)) = ''high'' \<and>
   score (missing_sections (analyze_website_gaps '''' business_name business_type)) =
     (if business_type \<in> set [''restaurant'', ''home_services'', ''professional''] then 10 else 40) \<and>
   priority_gaps (analyze_website_gaps '''' business_name business_type) =
     [''mobile_responsiveness'', ''modern_design'', ''seo_optimization'', ''key_sections''] \<and>
   gap_count (analyze_website_gaps '''' business_name business_type) = 4 \<and>
   overall_score (analyze_website_gaps '''' business_name business_type) =
     (if business_type \<in> set [''restaurant'', ''home_services'', ''professional''] then 22 else 25) \<and>
   total_issues (analyze_website_gaps '''' business_name business_type) =
     (if business_type \<in> set [''restaurant'', ''home_services'', ''professional''] then 18 else 15)"
  using missing_empty_facts[of business_type]
  by (simp add: extraction_empty analyze_website_gaps_def Let_def mobile_empty design_empty
      seo_empty performance_empty weighted_sum_def py_int_def find_priority_gaps_def append_if_def)

text \<open>The theorem of claim C9 for a restaurant, with a known phone number and without
  one.\<close>

theorem empty_page_reports_witness:
  "extract_business_content keep_reference '''' ''http://example.com'' (Some ''01234 567890'') =
     Inr \<lparr>colors = [], logos = [],
          text_sections = \<lparr>full_text = [], about = [], services = [], contact_text = []\<rparr>,
          contact_info = \<lparr>phone = Some ''01234 567890'', email = None, address = None\<rparr>,
          images = [],
          meta = \<lparr>total_colors_found = 0, total_images_found = 0, has_logo = False,
                   has_about_section = False, has_services_section = False,
                   has_contact_info = True\<rparr>\<rparr> \<and>
   extract_business_content keep_reference '''' ''http://example.com'' None =
     Inr \<lparr>colors = [], logos = [],
          text_sections = \<lparr>full_text = [], about = [], services = [], contact_text = []\<rparr>,
          contact_info = \<lparr>phone = None, email = None, address = None\<rparr>,
          images = [],
          meta = \<lparr>total_colors_found = 0, total_images_found = 0, has_logo = False,
                   has_about_section = False, has_services_section = False,
                   has_contact_info = False\<rparr>\<rparr> \<and>
   priority_gaps (analyze_website_gaps '''' ''Acme'' ''restaurant'') =
     [''mobile_responsiveness'', ''modern_design'', ''seo_optimization'', ''key_sections''] \<and>
   overall_score (analyze_website_gaps '''' ''Acme'' ''restaurant'') = 22 \<and>
   total_issues (analyze_website_gaps '''' ''Acme'' ''restaurant'') = 18"
  using empty_page_reports [of keep_reference "''http://example.com''" "Some ''01234 567890''"
      "''Acme''" "''restaurant''"]
    empty_page_reports [of keep_reference "''http://example.com''" None "''Acme''" "''restaurant''"]
  by (simp add: falsy_def)

text \<open>
  Claim C9 as it is stated fails for the gap analyzer: its report on the empty page has
  four priority gaps and fifteen issues.
\<close>

theorem empty_page_gap_report_counterexample:
  "priority_gaps (analyze_website_gaps '''' ''Acme'' ''general'') =
     [''mobile_responsiveness'', ''modern_design'', ''seo_optimization'', ''key_sections''] \<and>
   total_issues (analyze_website_gaps '''' ''Acme'' ''general'') = 15 \<and>
   \<not> empty_gap_report (analyze_website_gaps '''' ''Acme'' ''general'')"
  by (simp add: gaps_empty_general empty_gap_report_def)

end
